theory Spec2Isabelle
  imports Main "HOL-Library.AList" "HOL-Library.Multiset"
begin

section \<open>The room engine of server.js (moderated variant)\<close>

text \<open>
  The server keeps one global table of rooms and attaches a few fields to every
  WebSocket object. The embedding passes that state explicitly: a \<open>world\<close> holds the
  table \<open>rooms\<close>, the attached fields and the ready state of every connection, and the
  list of messages written to open connections so far. A connection object is named by
  a number; a room object is named by the key under which \<open>createRoom\<close> stored it, so a
  room reached through \<open>ws.roomCode\<close> and the same room reached through the host's
  registration are one object, as in the source.

  JavaScript \<open>Map\<close>s are association lists in insertion order, with \<open>AList.update\<close> for
  \<open>set\<close> (an existing key keeps its place, a new key goes last), \<open>AList.delete\<close> for
  \<open>delete\<close> and \<open>map_of\<close> for \<open>get\<close>. These operations never put a key twice into
  a list, so the length of the list is the size of the map.

  The source file holds two versions of the server. The one modelled is the first, in
  which a join is a request that the host approves or denies. The second, without
  \<open>pendingJoins\<close>, seats a contestant at once; its \<open>assignSlot\<close>, its buzzer handlers
  and the contestant branch of its \<open>close\<close> handler are those of the first.
\<close>

subsection \<open>Values of parsed messages\<close>

text \<open>
  The values of the fields of a parsed JSON message. \<open>JUndefined\<close> is an absent field.
  \<open>JNum\<close> is a number that is an integer, which \<open>String\<close> prints in plain decimal.
  \<open>JOther\<close> is any other value (a number with a fraction, an object, an array): it is
  truthy, it is no key of a map of strings and not equal to a string, and the server
  reads nothing of it but the text \<open>String\<close> gives, which the constructor carries.
\<close>

datatype jsval = JUndefined | JNull | JBool bool | JNum int | JStr string | JOther string

fun truthy :: "jsval \<Rightarrow> bool" where
  "truthy JUndefined = False"
| "truthy JNull = False"
| "truthy (JBool b) = b"
| "truthy (JNum n) = (n \<noteq> 0)"
| "truthy (JStr s) = (s \<noteq> [])"
| "truthy (JOther s) = True"

text \<open>\<open>a || b\<close>\<close>

definition js_or :: "jsval \<Rightarrow> jsval \<Rightarrow> jsval" where
  "js_or a b = (if truthy a then a else b)"

text \<open>\<open>s || d\<close> on strings: the empty string is falsy.\<close>

definition str_or :: "string \<Rightarrow> string \<Rightarrow> string" where
  "str_or s d = (if s \<noteq> [] then s else d)"

text \<open>A field that holds \<open>null\<close> or a string, read as a condition.\<close>

fun truthy_field :: "string option \<Rightarrow> bool" where
  "truthy_field None = False"
| "truthy_field (Some s) = (s \<noteq> [])"

fun string_of_nat :: "nat \<Rightarrow> string" where
  "string_of_nat n =
     (if n < 10 then [''0123456789'' ! n]
      else string_of_nat (n div 10) @ [''0123456789'' ! (n mod 10)])"

declare string_of_nat.simps [simp del]

text \<open>\<open>String(value)\<close>\<close>

fun js_String :: "jsval \<Rightarrow> string" where
  "js_String JUndefined = ''undefined''"
| "js_String JNull = ''null''"
| "js_String (JBool b) = (if b then ''true'' else ''false'')"
| "js_String (JNum n) =
     (if n < 0 then CHR ''-'' # string_of_nat (nat (- n)) else string_of_nat (nat n))"
| "js_String (JStr s) = s"
| "js_String (JOther s) = s"

subsection \<open>Constants and sanitizers\<close>

definition ROOM_CODE_LENGTH :: nat where
  "ROOM_CODE_LENGTH = 4"

definition SLOT_IDS :: "string list" where
  "SLOT_IDS = [''contestant-1'', ''contestant-2'', ''contestant-3'']"

definition SLOT_KEYS :: "(string \<times> string) list" where
  "SLOT_KEYS = [(''contestant-1'', ''1''), (''contestant-2'', ''2''), (''contestant-3'', ''3'')]"

definition is_digit :: "char \<Rightarrow> bool" where
  "is_digit c = (c \<in> set ''0123456789'')"

definition sanitizeRoomCode :: "jsval \<Rightarrow> string" where
  "sanitizeRoomCode v =
     (if \<not> truthy v then ''''
      else let digits = filter is_digit (js_String v)
           in if length digits < ROOM_CODE_LENGTH then ''''
              else take ROOM_CODE_LENGTH digits)"

definition is_crlf :: "char \<Rightarrow> bool" where
  "is_crlf c = (c = CHR 0x0D \<or> c = CHR 0x0A)"

text \<open>
  The characters \<open>trim\<close> removes, among the code units below 256: tab, line feed,
  vertical tab, form feed, carriage return, space and the no-break space.
\<close>

definition is_space :: "char \<Rightarrow> bool" where
  "is_space c = (c \<in> {CHR 0x09, CHR 0x0A, CHR 0x0B, CHR 0x0C, CHR 0x0D, CHR 0x20, CHR 0xA0})"

text \<open>\<open>replace(/[\r\n]+/g, ' ')\<close>: the flag says that the run of line breaks has begun.\<close>

fun replace_breaks :: "bool \<Rightarrow> string \<Rightarrow> string" where
  "replace_breaks in_run [] = []"
| "replace_breaks in_run (c # cs) =
     (if is_crlf c then (if in_run then replace_breaks True cs
                         else CHR '' '' # replace_breaks True cs)
      else c # replace_breaks False cs)"

definition trim :: "string \<Rightarrow> string" where
  "trim s = rev (dropWhile is_space (rev (dropWhile is_space s)))"

definition sanitizeName :: "jsval \<Rightarrow> string" where
  "sanitizeName v =
     (if \<not> truthy v then '''' else take 40 (trim (replace_breaks False (js_String v))))"

text \<open>
  \<open>generateRoomCode\<close>: the argument is the value of
  \<open>Math.floor(Math.random() * (max - min + 1))\<close>.
\<close>

definition generateRoomCode :: "nat \<Rightarrow> string" where
  "generateRoomCode k = string_of_nat (k + 10 ^ (ROOM_CODE_LENGTH - 1))"

subsection \<open>Connections, rooms, messages\<close>

type_synonym conn_id = nat

datatype ready_state = CONNECTING | OPEN | CLOSING | CLOSED

text \<open>The fields the server attaches to a WebSocket, and the socket's ready state.\<close>

record conn =
  ws_isHost :: bool
  ws_isContestant :: bool
  ws_roomCode :: "string option"
  ws_clientId :: "string option"
  ws_pendingRequestId :: "string option"
  ws_readyState :: ready_state

record slot =
  slot_clientId :: string
  slot_name :: string

record entry =
  entry_ws :: conn_id
  entry_name :: string
  entry_slotId :: string

record request =
  req_ws :: conn_id
  req_name :: string

record room =
  code :: string
  host :: "conn_id option"
  contestants :: "(string \<times> entry) list"
  slots :: "(string \<times> slot option) list"
  buzzersOpen :: bool
  activeResponder :: jsval
  pendingJoins :: "(string \<times> request) list"

text \<open>
  \<open>message.payload\<close>, when it is truthy. A truthy payload that is no object reads as
  one with every field absent.
\<close>

record payload =
  p_open :: jsval
  p_message :: jsval
  p_contestantId :: jsval
  p_name :: jsval
  p_requestId :: jsval
  p_slotId :: jsval
  p_clientId :: jsval

text \<open>The parsed message. \<open>msg_payload = None\<close> is an absent or falsy payload.\<close>

record message =
  msg_action :: jsval
  msg_roomCode :: jsval
  msg_payload :: "payload option"
  msg_requestId :: jsval

text \<open>What the server writes to a connection, by the \<open>type\<close> field.\<close>

datatype server_msg =
    RoomClosed string
  | HostRegistered string
  | JoinDenied string
  | JoinPending string
  | ContestantRequested string string int
  | ContestantRequestRemoved jsval string
  | ContestantRequestError jsval string
  | JoinAccepted string string string string
  | ContestantJoined string string string
  | ContestantLeft "string option" string
  | ContestantBuzz jsval jsval jsval
  | Sync payload
  | BuzzersState bool jsval
  | BuzzResult jsval jsval

record world =
  rooms :: "string \<rightharpoonup> room"
  conns :: "conn_id \<Rightarrow> conn"
  sent :: "(conn_id \<times> server_msg) list"

text \<open>
  What a handler draws from outside: the random draw behind \<open>generateRoomCode\<close>, the
  string \<open>generateClientId\<close> returns, and \<open>Date.now()\<close>.
\<close>

record gen =
  gen_room :: nat
  gen_id :: string
  gen_now :: int

text \<open>The fields set by the \<open>connection\<close> handler, on an open socket.\<close>

definition new_conn :: conn where
  "new_conn = \<lparr>ws_isHost = False, ws_isContestant = False, ws_roomCode = None,
     ws_clientId = None, ws_pendingRequestId = None, ws_readyState = OPEN\<rparr>"

definition init_world :: world where
  "init_world = \<lparr>rooms = Map.empty, conns = (\<lambda>_. new_conn), sent = []\<rparr>"

subsection \<open>Helpers\<close>

definition upd_conn :: "conn_id \<Rightarrow> (conn \<Rightarrow> conn) \<Rightarrow> world \<Rightarrow> world" where
  "upd_conn ws f w = w\<lparr>conns := (conns w)(ws := f (conns w ws))\<rparr>"

text \<open>A write through the reference to the room stored under \<open>k\<close>.\<close>

definition upd_room :: "string \<Rightarrow> (room \<Rightarrow> room) \<Rightarrow> world \<Rightarrow> world" where
  "upd_room k f w =
     (case rooms w k of None \<Rightarrow> w | Some r \<Rightarrow> w\<lparr>rooms := (rooms w)(k \<mapsto> f r)\<rparr>)"

definition is_open :: "world \<Rightarrow> conn_id \<Rightarrow> bool" where
  "is_open w ws = (ws_readyState (conns w ws) = OPEN)"

text \<open>\<open>room.host && room.host.readyState === WebSocket.OPEN\<close>\<close>

definition host_open :: "world \<Rightarrow> room \<Rightarrow> bool" where
  "host_open w r = (case host r of None \<Rightarrow> False | Some h \<Rightarrow> is_open w h)"

definition createRoom :: "string \<Rightarrow> world \<Rightarrow> world" where
  "createRoom c w =
     w\<lparr>rooms := (rooms w)(c \<mapsto>
        \<lparr>code = c, host = None, contestants = [],
         slots = map (\<lambda>slotId. (slotId, None)) SLOT_IDS,
         buzzersOpen = False, activeResponder = JNull, pendingJoins = []\<rparr>)\<rparr>"

text \<open>
  \<open>getRoom(code)\<close> returns a reference: the key that names the room object, with the
  fields the object has now. \<open>rooms.get(null)\<close> is \<open>undefined\<close>.
\<close>

definition getRoom :: "world \<Rightarrow> string option \<Rightarrow> (string \<times> room) option" where
  "getRoom w c = (case c of None \<Rightarrow> None | Some k \<Rightarrow> map_option (Pair k) (rooms w k))"

definition ensureRoom :: "string \<Rightarrow> world \<Rightarrow> world" where
  "ensureRoom c w = (case rooms w c of Some r \<Rightarrow> w | None \<Rightarrow> createRoom c w)"

text \<open>\<open>send\<close> writes to an open connection only.\<close>

definition send :: "conn_id \<Rightarrow> server_msg \<Rightarrow> world \<Rightarrow> world" where
  "send ws data w =
     (if ws_readyState (conns w ws) \<noteq> OPEN then w
      else w\<lparr>sent := sent w @ [(ws, data)]\<rparr>)"

text \<open>\<open>ws.close()\<close> of the ws library: an open socket starts its closing handshake.\<close>

definition ws_close :: "conn_id \<Rightarrow> world \<Rightarrow> world" where
  "ws_close ws w =
     (if ws_readyState (conns w ws) = OPEN
      then upd_conn ws (\<lambda>c. c\<lparr>ws_readyState := CLOSING\<rparr>) w else w)"

definition broadcastToContestants :: "string \<Rightarrow> server_msg \<Rightarrow> world \<Rightarrow> world" where
  "broadcastToContestants k data w =
     (case rooms w k of None \<Rightarrow> w
      | Some r \<Rightarrow> fold (\<lambda>(cid, e). send (entry_ws e) data) (contestants r) w)"

definition notifyJoinRequestRemoval :: "string \<Rightarrow> jsval \<Rightarrow> string \<Rightarrow> world \<Rightarrow> world" where
  "notifyJoinRequestRemoval k requestId reason w =
     (case rooms w k of None \<Rightarrow> w
      | Some r \<Rightarrow>
          (case host r of None \<Rightarrow> w
           | Some h \<Rightarrow>
               if \<not> is_open w h then w
               else send h (ContestantRequestRemoved requestId reason) w))"

definition clearPendingRequests :: "string \<Rightarrow> string \<Rightarrow> world \<Rightarrow> world" where
  "clearPendingRequests k reason w =
     (case rooms w k of None \<Rightarrow> w
      | Some r \<Rightarrow>
          upd_room k (\<lambda>r. r\<lparr>pendingJoins := []\<rparr>)
            (fold (\<lambda>(rid, rq) w.
                     if is_open w (req_ws rq)
                     then ws_close (req_ws rq)
                            (send (req_ws rq)
                               (JoinDenied (str_or reason
                                  ''Host disconnected. Try joining again soon.''))
                               (upd_conn (req_ws rq) (\<lambda>c. c\<lparr>ws_pendingRequestId := None\<rparr>) w))
                     else w)
               (pendingJoins r) w))"

text \<open>\<open>room.slots.get(slotId)\<close> read as a condition: \<open>None\<close> is \<open>null\<close> or \<open>undefined\<close>.\<close>

definition slots_get :: "room \<Rightarrow> string \<Rightarrow> slot option" where
  "slots_get r slotId = (case map_of (slots r) slotId of Some (Some s) \<Rightarrow> Some s | _ \<Rightarrow> None)"

text \<open>
  \<open>assignSlot\<close>: the loop over \<open>SLOT_IDS\<close>. \<open>cid\<close> is what \<open>generateClientId\<close> returns
  when the loop calls it.
\<close>

fun assignSlot_loop ::
  "string list \<Rightarrow> room \<Rightarrow> string \<Rightarrow> conn_id \<Rightarrow> string \<Rightarrow> (room \<times> string \<times> string) option" where
  "assignSlot_loop [] r name ws cid = None"
| "assignSlot_loop (slotId # rest) r name ws cid =
     (if slots_get r slotId = None
      then Some (r\<lparr>slots := AList.update slotId
                            (Some \<lparr>slot_clientId = cid, slot_name = name\<rparr>) (slots r),
                   contestants := AList.update cid
                            \<lparr>entry_ws = ws, entry_name = name, entry_slotId = slotId\<rparr>
                            (contestants r)\<rparr>,
                 slotId, cid)
      else assignSlot_loop rest r name ws cid)"

definition assignSlot :: "room \<Rightarrow> string \<Rightarrow> conn_id \<Rightarrow> string \<Rightarrow> (room \<times> string \<times> string) option" where
  "assignSlot r name ws cid = assignSlot_loop SLOT_IDS r name ws cid"

definition resetRoomState :: "room \<Rightarrow> room" where
  "resetRoomState r =
     r\<lparr>buzzersOpen := False, activeResponder := JNull,
       slots := map (\<lambda>(slotId, v). (slotId, if v = None then None else v)) (slots r)\<rparr>"

text \<open>\<open>room.slots.forEach((_, slotId) => room.slots.set(slotId, null))\<close>\<close>

definition clear_slots :: "room \<Rightarrow> room" where
  "clear_slots r = r\<lparr>slots := map (\<lambda>(slotId, v). (slotId, None)) (slots r)\<rparr>"

text \<open>\<open>send(room.host, data)\<close>, where the host may be \<open>null\<close>.\<close>

definition send_host :: "room \<Rightarrow> server_msg \<Rightarrow> world \<Rightarrow> world" where
  "send_host r data w = (case host r of None \<Rightarrow> w | Some h \<Rightarrow> send h data w)"

text \<open>\<open>room.slots.get(slotId)\<close> and \<open>room.pendingJoins.get(requestId)\<close> at a value of a
  message: only a string is a key of the map.\<close>

definition slots_get_val :: "room \<Rightarrow> jsval \<Rightarrow> slot option" where
  "slots_get_val r v = (case v of JStr s \<Rightarrow> slots_get r s | _ \<Rightarrow> None)"

definition pending_get :: "room \<Rightarrow> jsval \<Rightarrow> (string \<times> request) option" where
  "pending_get r v =
     (case v of JStr s \<Rightarrow> map_option (Pair s) (map_of (pendingJoins r) s) | _ \<Rightarrow> None)"

text \<open>\<open>ws.pendingRequestId && room.pendingJoins.get(ws.pendingRequestId)\<close>\<close>

definition existingRequest :: "conn \<Rightarrow> room \<Rightarrow> (string \<times> request) option" where
  "existingRequest c r =
     (case ws_pendingRequestId c of None \<Rightarrow> None
      | Some rid \<Rightarrow>
          if rid = [] then None else map_option (Pair rid) (map_of (pendingJoins r) rid))"

text \<open>\<open>(message.payload || {}).requestId || message.requestId\<close>\<close>

definition requestId_of :: "message \<Rightarrow> jsval" where
  "requestId_of m =
     js_or (case msg_payload m of None \<Rightarrow> JUndefined | Some p \<Rightarrow> p_requestId p)
           (msg_requestId m)"

subsection \<open>The handlers\<close>

definition handleRegisterHost :: "conn_id \<Rightarrow> message \<Rightarrow> gen \<Rightarrow> world \<Rightarrow> world" where
  "handleRegisterHost ws m g w0 =
     (let providedCode = str_or (sanitizeRoomCode (msg_roomCode m))
                                (generateRoomCode (gen_room g));
          w = ensureRoom providedCode w0
      in case rooms w providedCode of None \<Rightarrow> w
         | Some r \<Rightarrow>
             let w = (case host r of None \<Rightarrow> w
                      | Some h \<Rightarrow>
                          if h \<noteq> ws
                          then ws_close h (send h (RoomClosed ''Host replaced.'') w)
                          else w);
                 w = upd_room providedCode (\<lambda>r. resetRoomState (r\<lparr>host := Some ws\<rparr>)) w;
                 w = fold (\<lambda>(cid, e) w.
                             ws_close (entry_ws e)
                               (send (entry_ws e)
                                  (RoomClosed ''Host reconnected. Please rejoin.'') w))
                       (contestants r) w;
                 w = upd_room providedCode (\<lambda>r. clear_slots (r\<lparr>contestants := []\<rparr>)) w;
                 w = clearPendingRequests providedCode
                       ''Host restarted the room. Please request to join again.'' w;
                 w = upd_conn ws (\<lambda>c. c\<lparr>ws_isHost := True, ws_roomCode := Some (code r)\<rparr>) w
             in send ws (HostRegistered (code r)) w)"

definition handleBroadcast :: "conn_id \<Rightarrow> message \<Rightarrow> world \<Rightarrow> world" where
  "handleBroadcast ws m w =
     (case getRoom w (ws_roomCode (conns w ws)) of None \<Rightarrow> w
      | Some (k, r) \<Rightarrow>
          if host r \<noteq> Some ws then w
          else case msg_payload m of None \<Rightarrow> w
               | Some p \<Rightarrow> broadcastToContestants k (Sync p) w)"

definition handleBuzzersState :: "conn_id \<Rightarrow> message \<Rightarrow> world \<Rightarrow> world" where
  "handleBuzzersState ws m w =
     (case getRoom w (ws_roomCode (conns w ws)) of None \<Rightarrow> w
      | Some (k, r) \<Rightarrow>
          if host r \<noteq> Some ws then w
          else case msg_payload m of None \<Rightarrow> w
               | Some p \<Rightarrow>
                   let opn = truthy (p_open p);
                       w = upd_room k (\<lambda>r. r\<lparr>buzzersOpen := opn\<rparr>) w;
                       w = (if opn then upd_room k (\<lambda>r. r\<lparr>activeResponder := JNull\<rparr>) w
                            else w)
                   in broadcastToContestants k
                        (BuzzersState opn (js_or (p_message p) (JStr ''''))) w)"

definition handleBuzzResult :: "conn_id \<Rightarrow> message \<Rightarrow> world \<Rightarrow> world" where
  "handleBuzzResult ws m w =
     (case getRoom w (ws_roomCode (conns w ws)) of None \<Rightarrow> w
      | Some (k, r) \<Rightarrow>
          if host r \<noteq> Some ws then w
          else case msg_payload m of None \<Rightarrow> w
               | Some p \<Rightarrow>
                   let w = upd_room k
                             (\<lambda>r. r\<lparr>activeResponder := js_or (p_contestantId p) JNull\<rparr>) w
                   in broadcastToContestants k
                        (BuzzResult (p_contestantId p) (p_name p)) w)"

definition handleJoinContestant :: "conn_id \<Rightarrow> message \<Rightarrow> gen \<Rightarrow> world \<Rightarrow> world" where
  "handleJoinContestant ws m g w =
     (let c = sanitizeRoomCode (msg_roomCode m);
          name = sanitizeName (case msg_payload m of None \<Rightarrow> JUndefined
                               | Some p \<Rightarrow> p_name p);
          denied = send ws (JoinDenied ''Room not found. Ask the host for a new code.'') w
      in case getRoom w (Some c) of None \<Rightarrow> denied
         | Some (k, r) \<Rightarrow>
             if \<not> host_open w r then denied
             else
               let w = upd_conn ws (\<lambda>c. c\<lparr>ws_roomCode := Some (code r)\<rparr>) w
               in case existingRequest (conns w ws) r of
                    Some (rid, rq) \<Rightarrow>
                      upd_room k (\<lambda>r. r\<lparr>pendingJoins := AList.update rid
                                     (rq\<lparr>req_name := str_or name (req_name rq)\<rparr>)
                                     (pendingJoins r)\<rparr>) w
                  | None \<Rightarrow>
                      let requestId = gen_id g;
                          w = upd_room k (\<lambda>r. r\<lparr>pendingJoins := AList.update requestId
                                     \<lparr>req_ws = ws, req_name = str_or name ''Contestant''\<rparr>
                                     (pendingJoins r)\<rparr>) w;
                          w = upd_conn ws (\<lambda>c. c\<lparr>ws_pendingRequestId := Some requestId\<rparr>) w;
                          w = send ws (JoinPending requestId) w
                      in if host_open w r
                         then send_host r
                                (ContestantRequested requestId (str_or name ''Contestant'')
                                   (gen_now g)) w
                         else w)"

definition handleApproveContestant :: "conn_id \<Rightarrow> message \<Rightarrow> gen \<Rightarrow> world \<Rightarrow> world" where
  "handleApproveContestant ws m g w =
     (case getRoom w (ws_roomCode (conns w ws)) of None \<Rightarrow> w
      | Some (k, r) \<Rightarrow>
          if host r \<noteq> Some ws then w
          else
            let requestId = requestId_of m
            in if \<not> truthy requestId then w
               else case pending_get r requestId of
                  None \<Rightarrow>
                    send ws (ContestantRequestError requestId
                               ''Request no longer available.'') w
                | Some (rid, rq) \<Rightarrow>
                    let r1 = r\<lparr>pendingJoins := AList.delete rid (pendingJoins r)\<rparr>;
                        w = upd_room k (\<lambda>_. r1) w;
                        contestantWs = req_ws rq;
                        name = str_or (req_name rq) ''Contestant''
                    in if \<not> is_open w contestantWs
                       then notifyJoinRequestRemoval k requestId ''left'' w
                       else case assignSlot r1 name contestantWs (gen_id g) of
                          None \<Rightarrow>
                            let w = upd_conn contestantWs
                                      (\<lambda>c. c\<lparr>ws_pendingRequestId := None\<rparr>) w;
                                w = send contestantWs (JoinDenied
  ''All contestant slots are full. Ask the host to free a slot and try again.'') w
                            in notifyJoinRequestRemoval k requestId ''full'' w
                        | Some (r2, slotId, clientId) \<Rightarrow>
                            let w = upd_room k (\<lambda>_. r2) w;
                                w = upd_conn contestantWs
                                      (\<lambda>c. c\<lparr>ws_isContestant := True,
                                             ws_roomCode := Some (code r2),
                                             ws_clientId := Some clientId,
                                             ws_pendingRequestId := None\<rparr>) w;
                                w = send contestantWs
                                      (JoinAccepted slotId clientId
                                         (case map_of SLOT_KEYS slotId of None \<Rightarrow> ''''
                                          | Some key \<Rightarrow> str_or key '''')
                                         name) w;
                                w = notifyJoinRequestRemoval k requestId ''approved'' w
                            in if host_open w r2
                               then send_host r2 (ContestantJoined slotId clientId name) w
                               else w)"

definition handleDenyContestant :: "conn_id \<Rightarrow> message \<Rightarrow> world \<Rightarrow> world" where
  "handleDenyContestant ws m w =
     (case getRoom w (ws_roomCode (conns w ws)) of None \<Rightarrow> w
      | Some (k, r) \<Rightarrow>
          if host r \<noteq> Some ws then w
          else
            let requestId = requestId_of m
            in if \<not> truthy requestId then w
               else case pending_get r requestId of
                  None \<Rightarrow>
                    send ws (ContestantRequestError requestId
                               ''Request no longer available.'') w
                | Some (rid, rq) \<Rightarrow>
                    let w = upd_room k
                              (\<lambda>r. r\<lparr>pendingJoins := AList.delete rid (pendingJoins r)\<rparr>) w;
                        contestantWs = req_ws rq;
                        w = (if is_open w contestantWs
                             then send contestantWs (JoinDenied ''Host declined your request.'')
                                    (upd_conn contestantWs
                                       (\<lambda>c. c\<lparr>ws_pendingRequestId := None\<rparr>) w)
                             else w)
                    in notifyJoinRequestRemoval k requestId ''denied'' w)"

definition handleContestantBuzz :: "conn_id \<Rightarrow> message \<Rightarrow> world \<Rightarrow> world" where
  "handleContestantBuzz ws m w =
     (case getRoom w (ws_roomCode (conns w ws)) of None \<Rightarrow> w
      | Some (k, r) \<Rightarrow>
          (case msg_payload m of None \<Rightarrow> w
           | Some p \<Rightarrow>
               if \<not> truthy (p_slotId p) \<or> \<not> truthy (p_clientId p) then w
               else case slots_get_val r (p_slotId p) of None \<Rightarrow> w
                    | Some s \<Rightarrow>
                        if JStr (slot_clientId s) \<noteq> p_clientId p then w
                        else if \<not> buzzersOpen r \<or> \<not> host_open w r
                        then send ws (BuzzersState False (JStr ''Buzzers locked.'')) w
                        else if truthy (activeResponder r)
                        then send ws (BuzzResult (activeResponder r) JUndefined) w
                        else send_host r
                               (ContestantBuzz (p_slotId p) (p_clientId p) (p_name p)) w))"

text \<open>
  \<open>handleMessage\<close>: \<open>raw = None\<close> is a text that does not parse, or parses to something
  that is no object.
\<close>

definition handleMessage :: "conn_id \<Rightarrow> message option \<Rightarrow> gen \<Rightarrow> world \<Rightarrow> world" where
  "handleMessage ws raw g w =
     (case raw of None \<Rightarrow> w
      | Some data \<Rightarrow>
          let action = msg_action data
          in if action = JStr ''register-host'' then handleRegisterHost ws data g w
             else if action = JStr ''join-contestant'' then handleJoinContestant ws data g w
             else if \<not> truthy_field (ws_roomCode (conns w ws)) then w
             else if action = JStr ''broadcast'' then handleBroadcast ws data w
             else if action = JStr ''buzzers-state'' then handleBuzzersState ws data w
             else if action = JStr ''buzz-result'' then handleBuzzResult ws data w
             else if action = JStr ''contestant-buzz'' then handleContestantBuzz ws data w
             else if action = JStr ''approve-contestant''
             then handleApproveContestant ws data g w
             else if action = JStr ''deny-contestant'' then handleDenyContestant ws data w
             else w)"

text \<open>The scan of the \<open>close\<close> handler: every slot that holds \<open>cid\<close> is set to \<open>null\<close>.\<close>

definition scan_slots :: "string \<Rightarrow> (string \<times> slot option) list \<Rightarrow> (string \<times> slot option) list" where
  "scan_slots cid sl =
     map (\<lambda>(slotId, v). (slotId, case v of None \<Rightarrow> None
                                  | Some s \<Rightarrow> if slot_clientId s = cid then None else Some s)) sl"

text \<open>The \<open>close\<close> handler, first branch: the closing connection is a host.\<close>

definition close_host :: "conn_id \<Rightarrow> world \<Rightarrow> world" where
  "close_host ws w =
     (case getRoom w (ws_roomCode (conns w ws)) of None \<Rightarrow> w
      | Some (k, r) \<Rightarrow>
          if host r \<noteq> Some ws then w
          else
            let w = broadcastToContestants k
                      (RoomClosed ''Host disconnected. Please wait.'') w;
                w = fold (\<lambda>(cid, e). ws_close (entry_ws e)) (contestants r) w;
                w = upd_room k (\<lambda>r. (clear_slots (r\<lparr>contestants := []\<rparr>))
                                      \<lparr>host := None, buzzersOpen := False,
                                       activeResponder := JNull\<rparr>) w
            in clearPendingRequests k ''Host disconnected. Try joining again soon.'' w)"

text \<open>Second branch, first part: a pending request of the closing connection.\<close>

definition close_pending :: "conn_id \<Rightarrow> string \<Rightarrow> world \<Rightarrow> world" where
  "close_pending ws k w =
     (case rooms w k of None \<Rightarrow> w
      | Some r \<Rightarrow>
          (case ws_pendingRequestId (conns w ws) of None \<Rightarrow> w
           | Some rid \<Rightarrow>
               if rid \<noteq> [] \<and> map_of (pendingJoins r) rid \<noteq> None
               then notifyJoinRequestRemoval k (JStr rid) ''left''
                      (upd_room k
                         (\<lambda>r. r\<lparr>pendingJoins := AList.delete rid (pendingJoins r)\<rparr>) w)
               else w))"

text \<open>Second branch, second part: the seat of the closing connection.\<close>

definition close_contestant :: "conn_id \<Rightarrow> string \<Rightarrow> world \<Rightarrow> world" where
  "close_contestant ws k w =
     (case rooms w k of None \<Rightarrow> w
      | Some r \<Rightarrow>
          (case ws_clientId (conns w ws) of None \<Rightarrow> w
           | Some cid \<Rightarrow>
               if \<not> ws_isContestant (conns w ws) \<or> cid = [] then w
               else case map_of (contestants r) cid of None \<Rightarrow> w
                    | Some e \<Rightarrow>
                        let slotId = (if entry_slotId e \<noteq> [] then Some (entry_slotId e)
                                      else None);
                            hit = (case slotId of None \<Rightarrow> False
                                   | Some sid \<Rightarrow>
                                       (case slots_get r sid of None \<Rightarrow> False
                                        | Some s \<Rightarrow> slot_clientId s = cid));
                            w = upd_room k
                                  (\<lambda>r. r\<lparr>contestants := AList.delete cid (contestants r)\<rparr>) w;
                            w = (if hit
                                 then upd_room k
                                        (\<lambda>r. r\<lparr>slots := AList.update (entry_slotId e) None
                                                          (slots r)\<rparr>) w
                                 else upd_room k
                                        (\<lambda>r. r\<lparr>slots := scan_slots cid (slots r)\<rparr>) w)
                        in if host_open w r then send_host r (ContestantLeft slotId cid) w
                           else w))"

text \<open>
  The \<open>close\<close> event of a connection: the socket is closed when its handler runs.
\<close>

definition on_close :: "conn_id \<Rightarrow> world \<Rightarrow> world" where
  "on_close ws w0 =
     (let w = upd_conn ws (\<lambda>c. c\<lparr>ws_readyState := CLOSED\<rparr>) w0;
          c = conns w ws
      in if ws_isHost c \<and> truthy_field (ws_roomCode c) then close_host ws w
         else if truthy_field (ws_roomCode c)
         then (case ws_roomCode c of None \<Rightarrow> w
               | Some k \<Rightarrow>
                   (case rooms w k of None \<Rightarrow> w
                    | Some r \<Rightarrow> close_contestant ws k (close_pending ws k w)))
         else w)"

subsection \<open>Runs of the server\<close>

text \<open>
  The event loop handles one event at a time: a message of a connection, with what the
  handler draws from outside, or the close of a connection.
\<close>

datatype event = Message conn_id "message option" gen | Close conn_id

fun step :: "world \<Rightarrow> event \<Rightarrow> world" where
  "step w (Message ws raw g) = handleMessage ws raw g w"
| "step w (Close ws) = on_close ws w"

definition run :: "event list \<Rightarrow> world" where
  "run es = foldl step init_world es"

subsection \<open>Predicates of the properties\<close>

text \<open>The number of slots that hold a contestant, and the size of the \<open>contestants\<close> map.\<close>

definition occupied :: "room \<Rightarrow> nat" where
  "occupied r = length (filter (\<lambda>(slotId, v). v \<noteq> None) (slots r))"

definition n_contestants :: "room \<Rightarrow> nat" where
  "n_contestants r = length (contestants r)"

text \<open>
  The seats of a room, read from each side: the (slot id, client id) pairs of the occupied
  slots, and the (slot id, client id) pairs of the entries of \<open>contestants\<close>.
\<close>

definition slot_pairs :: "(string \<times> slot option) list \<Rightarrow> (string \<times> string) list" where
  "slot_pairs sl =
     concat (map (\<lambda>(slotId, v). case v of None \<Rightarrow> [] | Some s \<Rightarrow> [(slotId, slot_clientId s)]) sl)"

definition entry_pairs :: "(string \<times> entry) list \<Rightarrow> (string \<times> string) list" where
  "entry_pairs cs = map (\<lambda>(cid, e). (entry_slotId e, cid)) cs"

text \<open>
  The two maps mirror each other: the slots are the three fixed ones, no client id is
  twice a key of \<open>contestants\<close>, and both sides list the same seats.
\<close>

definition room_inv :: "room \<Rightarrow> bool" where
  "room_inv r =
     (map fst (slots r) = SLOT_IDS \<and> distinct (map fst (contestants r)) \<and>
      mset (slot_pairs (slots r)) = mset (entry_pairs (contestants r)))"

definition world_inv :: "world \<Rightarrow> bool" where
  "world_inv w = (\<forall>k r. rooms w k = Some r \<longrightarrow> room_inv r)"

text \<open>
  The client id that an approval draws is new in the room of the approving connection:
  it is no key of that room's \<open>contestants\<close>.
\<close>

fun mints_fresh :: "world \<Rightarrow> event \<Rightarrow> bool" where
  "mints_fresh w (Message ws raw g) =
     (case raw of None \<Rightarrow> True
      | Some m \<Rightarrow>
          if msg_action m = JStr ''approve-contestant''
          then (case getRoom w (ws_roomCode (conns w ws)) of None \<Rightarrow> True
                | Some (k, r) \<Rightarrow> gen_id g \<notin> set (map fst (contestants r)))
          else True)"
| "mints_fresh w (Close ws) = True"

fun fresh_run :: "world \<Rightarrow> event list \<Rightarrow> bool" where
  "fresh_run w [] = True"
| "fresh_run w (e # es) = (mints_fresh w e \<and> fresh_run (step w e) es)"

text \<open>The event is a \<open>contestant-buzz\<close> message.\<close>

fun is_buzz :: "event \<Rightarrow> bool" where
  "is_buzz (Message ws (Some m) g) = (msg_action m = JStr ''contestant-buzz'')"
| "is_buzz _ = False"

text \<open>
  In the world \<open>w\<close>, the event is a \<open>buzz-result\<close> message of the connection bound as host
  of the room \<open>k\<close>, and it names \<open>v\<close> as the contestant id.
\<close>

fun host_declares :: "world \<Rightarrow> event \<Rightarrow> string \<Rightarrow> jsval \<Rightarrow> bool" where
  "host_declares w (Message ws (Some m) g) k v =
     (msg_action m = JStr ''buzz-result'' \<and> ws_roomCode (conns w ws) = Some k \<and>
      (case rooms w k of None \<Rightarrow> False | Some r \<Rightarrow> host r = Some ws) \<and>
      (case msg_payload m of None \<Rightarrow> False | Some p \<Rightarrow> p_contestantId p = v))"
| "host_declares w _ k v = False"

text \<open>The value of \<open>activeResponder\<close> in the room \<open>k\<close>, if the room exists.\<close>

definition responder :: "world \<Rightarrow> string \<Rightarrow> jsval option" where
  "responder w k = map_option activeResponder (rooms w k)"

text \<open>The claimed slot holds a contestant whose client id is the claimed one.\<close>

definition slot_holds :: "room \<Rightarrow> jsval \<Rightarrow> jsval \<Rightarrow> bool" where
  "slot_holds r slotId clientId =
     (case slots_get_val r slotId of None \<Rightarrow> False
      | Some s \<Rightarrow> JStr (slot_clientId s) = clientId)"

text \<open>The connections that the pending requests of a room refer to.\<close>

definition pending_conns :: "world \<Rightarrow> string \<Rightarrow> conn_id list" where
  "pending_conns w k =
     (case rooms w k of None \<Rightarrow> [] | Some r \<Rightarrow> map (\<lambda>(rid, rq). req_ws rq) (pendingJoins r))"

subsection \<open>Messages of the scenarios\<close>

definition no_payload :: payload where
  "no_payload = \<lparr>p_open = JUndefined, p_message = JUndefined, p_contestantId = JUndefined,
     p_name = JUndefined, p_requestId = JUndefined, p_slotId = JUndefined,
     p_clientId = JUndefined\<rparr>"

definition msg_of :: "string \<Rightarrow> message" where
  "msg_of a = \<lparr>msg_action = JStr a, msg_roomCode = JUndefined, msg_payload = None,
     msg_requestId = JUndefined\<rparr>"

definition draws :: "string \<Rightarrow> gen" where
  "draws i = \<lparr>gen_room = 0, gen_id = i, gen_now = 0\<rparr>"

definition register_msg :: "string \<Rightarrow> message" where
  "register_msg c = (msg_of ''register-host'')\<lparr>msg_roomCode := JStr c\<rparr>"

definition join_msg :: "string \<Rightarrow> string \<Rightarrow> message" where
  "join_msg c n = (msg_of ''join-contestant'')
     \<lparr>msg_roomCode := JStr c, msg_payload := Some (no_payload\<lparr>p_name := JStr n\<rparr>)\<rparr>"

definition approve_msg :: "string \<Rightarrow> message" where
  "approve_msg rid = (msg_of ''approve-contestant'')
     \<lparr>msg_payload := Some (no_payload\<lparr>p_requestId := JStr rid\<rparr>)\<rparr>"

definition open_msg :: message where
  "open_msg = (msg_of ''buzzers-state'')
     \<lparr>msg_payload := Some (no_payload\<lparr>p_open := JBool True\<rparr>)\<rparr>"

definition result_msg :: "string \<Rightarrow> message" where
  "result_msg cid = (msg_of ''buzz-result'')
     \<lparr>msg_payload := Some (no_payload\<lparr>p_contestantId := JStr cid\<rparr>)\<rparr>"

definition buzz_msg :: "string \<Rightarrow> string \<Rightarrow> message" where
  "buzz_msg sid cid = (msg_of ''contestant-buzz'')
     \<lparr>msg_payload := Some (no_payload\<lparr>p_slotId := JStr sid, p_clientId := JStr cid\<rparr>)\<rparr>"

text \<open>
  Connection 0 registers as host of room 1234; connections 1 and 2 ask to join and are
  approved.
\<close>

definition two_seated :: "string \<Rightarrow> string \<Rightarrow> event list" where
  "two_seated c1 c2 =
     [Message 0 (Some (register_msg ''1234'')) (draws ''''),
      Message 1 (Some (join_msg ''1234'' ''Alex'')) (draws ''req1''),
      Message 2 (Some (join_msg ''1234'' ''Blake'')) (draws ''req2''),
      Message 0 (Some (approve_msg ''req1'')) (draws c1),
      Message 0 (Some (approve_msg ''req2'')) (draws c2)]"

text \<open>The room 1234 with Alex and Blake seated and the buzzers open.\<close>

definition seated :: world where
  "seated = run (two_seated ''c1'' ''c2'' @ [Message 0 (Some open_msg) (draws '''')])"

definition seated_room :: room where
  "seated_room = \<lparr>code = ''1234'', host = Some 0,
     contestants =
       [(''c1'', \<lparr>entry_ws = 1, entry_name = ''Alex'', entry_slotId = ''contestant-1''\<rparr>),
        (''c2'', \<lparr>entry_ws = 2, entry_name = ''Blake'', entry_slotId = ''contestant-2''\<rparr>)],
     slots =
       [(''contestant-1'', Some \<lparr>slot_clientId = ''c1'', slot_name = ''Alex''\<rparr>),
        (''contestant-2'', Some \<lparr>slot_clientId = ''c2'', slot_name = ''Blake''\<rparr>),
        (''contestant-3'', None)],
     buzzersOpen = True, activeResponder = JNull, pendingJoins = []\<rparr>"

text \<open>The same room after the host has named Alex as the responder.\<close>

definition answered :: world where
  "answered = step seated (Message 0 (Some (result_msg ''c1'')) (draws ''''))"

text \<open>
  The room 1234 with all three slots taken, the buzzers open, Alex holding the lock and
  a request of a fourth connection pending.
\<close>

definition busy :: world where
  "busy = foldl step answered
     [Message 3 (Some (join_msg ''1234'' ''Casey'')) (draws ''req3''),
      Message 0 (Some (approve_msg ''req3'')) (draws ''c3''),
      Message 4 (Some (join_msg ''1234'' ''Drew'')) (draws ''req4'')]"

definition busy_room :: room where
  "busy_room = \<lparr>code = ''1234'', host = Some 0,
     contestants =
       [(''c1'', \<lparr>entry_ws = 1, entry_name = ''Alex'', entry_slotId = ''contestant-1''\<rparr>),
        (''c2'', \<lparr>entry_ws = 2, entry_name = ''Blake'', entry_slotId = ''contestant-2''\<rparr>),
        (''c3'', \<lparr>entry_ws = 3, entry_name = ''Casey'', entry_slotId = ''contestant-3''\<rparr>)],
     slots =
       [(''contestant-1'', Some \<lparr>slot_clientId = ''c1'', slot_name = ''Alex''\<rparr>),
        (''contestant-2'', Some \<lparr>slot_clientId = ''c2'', slot_name = ''Blake''\<rparr>),
        (''contestant-3'', Some \<lparr>slot_clientId = ''c3'', slot_name = ''Casey''\<rparr>)],
     buzzersOpen = True, activeResponder = JStr ''c1'',
     pendingJoins = [(''req4'', \<lparr>req_ws = 4, req_name = ''Drew''\<rparr>)]\<rparr>"

text \<open>
  Connection 1 has asked to join room 1234 and waits for the host's answer.
\<close>

definition waiting :: world where
  "waiting = run [Message 0 (Some (register_msg ''1234'')) (draws ''''),
                  Message 1 (Some (join_msg ''1234'' ''Alex'')) (draws ''req1'')]"

definition waiting_room :: room where
  "waiting_room = \<lparr>code = ''1234'', host = Some 0, contestants = [],
     slots = [(''contestant-1'', None), (''contestant-2'', None), (''contestant-3'', None)],
     buzzersOpen = False, activeResponder = JNull,
     pendingJoins = [(''req1'', \<lparr>req_ws = 1, req_name = ''Alex''\<rparr>)]\<rparr>"

text \<open>
  Two hosts open the rooms 1111 and 2222; connection 2 asks to join the first and then
  the second.
\<close>

definition two_rooms :: "event list" where
  "two_rooms =
     [Message 0 (Some (register_msg ''1111'')) (draws ''''),
      Message 1 (Some (register_msg ''2222'')) (draws ''''),
      Message 2 (Some (join_msg ''1111'' ''Alex'')) (draws ''reqA''),
      Message 2 (Some (join_msg ''2222'' ''Alex'')) (draws ''reqB'')]"

text \<open>
  The host names Alex as the responder although the buzzers were never opened and
  nobody buzzed.
\<close>

definition unprompted :: "event list" where
  "unprompted = two_seated ''c1'' ''c2'' @ [Message 0 (Some (result_msg ''c1'')) (draws '''')]"

text \<open>Every room has the three fixed slots, in the order of \<open>SLOT_IDS\<close>.\<close>

definition slots_fixed :: "world \<Rightarrow> bool" where
  "slots_fixed w = (\<forall>k r. rooms w k = Some r \<longrightarrow> map fst (slots r) = SLOT_IDS)"

section \<open>Properties\<close>

subsection \<open>What the helpers leave alone\<close>

lemma send_fields [simp]:
  "rooms (send ws d w) = rooms w" "conns (send ws d w) = conns w"
  by (simp_all add: send_def)

lemma ws_close_fields [simp]:
  "rooms (ws_close ws w) = rooms w" "sent (ws_close ws w) = sent w"
  by (simp_all add: ws_close_def upd_conn_def)

lemma upd_conn_fields [simp]:
  "rooms (upd_conn ws f w) = rooms w" "sent (upd_conn ws f w) = sent w"
  "conns (upd_conn ws f w) = (conns w)(ws := f (conns w ws))"
  by (simp_all add: upd_conn_def)

lemma upd_room_fields [simp]:
  "conns (upd_room k f w) = conns w" "sent (upd_room k f w) = sent w"
  by (simp_all add: upd_room_def split: option.splits)

lemma rooms_upd_room:
  "rooms (upd_room k f w) =
     (case rooms w k of None \<Rightarrow> rooms w | Some r \<Rightarrow> (rooms w)(k \<mapsto> f r))"
  by (simp add: upd_room_def split: option.splits)

lemma rooms_upd_room_Some [simp]:
  "rooms w k = Some r \<Longrightarrow> rooms (upd_room k f w) = (rooms w)(k \<mapsto> f r)"
  by (simp add: upd_room_def)

lemma send_host_fields [simp]:
  "rooms (send_host r d w) = rooms w" "conns (send_host r d w) = conns w"
  by (simp_all add: send_host_def split: option.splits)

lemma fold_send_fields [simp]:
  "rooms (fold (\<lambda>(cid, e). send (entry_ws e) d) cs w) = rooms w"
  "conns (fold (\<lambda>(cid, e). send (entry_ws e) d) cs w) = conns w"
  by (induction cs arbitrary: w) (simp_all add: split_def)

lemma broadcast_fields [simp]:
  "rooms (broadcastToContestants k d w) = rooms w"
  "conns (broadcastToContestants k d w) = conns w"
  by (simp_all add: broadcastToContestants_def split: option.splits)

lemma notify_fields [simp]:
  "rooms (notifyJoinRequestRemoval k i reason w) = rooms w"
  "conns (notifyJoinRequestRemoval k i reason w) = conns w"
  by (simp_all add: notifyJoinRequestRemoval_def split: option.splits)

lemma fold_close_rooms [simp]:
  "rooms (fold (\<lambda>(cid, e). ws_close (entry_ws e)) cs w) = rooms w"
  by (induction cs arbitrary: w) (simp_all add: split_def)

lemma fold_send_close_rooms [simp]:
  "rooms (fold (\<lambda>(cid, e) w. ws_close (entry_ws e) (send (entry_ws e) d w)) cs w) = rooms w"
  by (induction cs arbitrary: w) (simp_all add: split_def)

lemma fold_pending_rooms [simp]:
  "rooms (fold (\<lambda>(rid, rq) w.
            if is_open w (req_ws rq)
            then ws_close (req_ws rq) (send (req_ws rq) d (upd_conn (req_ws rq) f w))
            else w) ps w) = rooms w"
  by (induction ps arbitrary: w) (simp_all add: split_def)

lemma rooms_clearPendingRequests [simp]:
  "rooms (clearPendingRequests k reason w) =
     (case rooms w k of None \<Rightarrow> rooms w
      | Some r \<Rightarrow> (rooms w)(k \<mapsto> r\<lparr>pendingJoins := []\<rparr>))"
  by (simp add: clearPendingRequests_def upd_room_def split: option.splits)

lemma handleContestantBuzz_frame:
  "\<exists>out. handleContestantBuzz ws m w = w\<lparr>sent := sent w @ out\<rparr>"
  by (auto simp add: handleContestantBuzz_def send_def send_host_def split: option.splits
      intro: exI[of _ "[]"])

lemma handleMessage_dispatch:
  "handleMessage ws (Some m) g w = w \<or>
   handleMessage ws (Some m) g w = handleRegisterHost ws m g w \<or>
   handleMessage ws (Some m) g w = handleJoinContestant ws m g w \<or>
   handleMessage ws (Some m) g w = handleBroadcast ws m w \<or>
   handleMessage ws (Some m) g w = handleBuzzersState ws m w \<or>
   (msg_action m = JStr ''buzz-result'' \<and>
    handleMessage ws (Some m) g w = handleBuzzResult ws m w) \<or>
   handleMessage ws (Some m) g w = handleContestantBuzz ws m w \<or>
   (msg_action m = JStr ''approve-contestant'' \<and>
    handleMessage ws (Some m) g w = handleApproveContestant ws m g w) \<or>
   handleMessage ws (Some m) g w = handleDenyContestant ws m w"
  by (simp add: handleMessage_def Let_def)

lemma run_snoc: "run (es @ [e]) = step (run es) e"
  by (simp add: run_def)

lemma resetRoomState_slots [simp]: "slots (resetRoomState r) = slots r"
  by (simp add: resetRoomState_def map_idI split_def)

lemma clear_map: "map (\<lambda>(slotId, v). (slotId, None)) sl = map (\<lambda>s. (s, None)) (map fst sl)"
  by (induction sl) auto

lemma room_all_updates:
  "r\<lparr>host := h, buzzersOpen := b, activeResponder := a, contestants := c, slots := s,
     pendingJoins := p\<rparr> =
   \<lparr>code = code r, host = h, contestants = c, slots = s, buzzersOpen = b,
    activeResponder = a, pendingJoins = p\<rparr>"
  by (cases r) simp

lemma rooms_handleRegisterHost:
  "rooms (handleRegisterHost ws m g w) =
     (let k = str_or (sanitizeRoomCode (msg_roomCode m)) (generateRoomCode (gen_room g));
          c = (case rooms w k of None \<Rightarrow> k | Some r \<Rightarrow> code r);
          sl = (case rooms w k of None \<Rightarrow> SLOT_IDS | Some r \<Rightarrow> map fst (slots r))
      in (rooms w)(k \<mapsto> \<lparr>code = c, host = Some ws, contestants = [],
                 slots = map (\<lambda>s. (s, None)) sl,
                 buzzersOpen = False, activeResponder = JNull, pendingJoins = []\<rparr>))"
  by (auto simp add: handleRegisterHost_def Let_def ensureRoom_def createRoom_def clear_slots_def
      resetRoomState_def clear_map room_all_updates split: option.splits)

lemma conns_handleRegisterHost:
  "ws_isHost (conns (handleRegisterHost ws m g w) ws) \<and>
   ws_roomCode (conns (handleRegisterHost ws m g w) ws) =
     Some (let k = str_or (sanitizeRoomCode (msg_roomCode m)) (generateRoomCode (gen_room g))
           in case rooms w k of None \<Rightarrow> k | Some r \<Rightarrow> code r)"
  by (auto simp add: handleRegisterHost_def Let_def ensureRoom_def createRoom_def
      split: option.splits)

subsection \<open>The scenario worlds\<close>

lemma seated_rooms: "rooms seated ''1234'' = Some seated_room"
  unfolding seated_def seated_room_def by code_simp

lemma seated_roomCode:
  "ws_roomCode (conns seated 0) = Some ''1234''"
  "ws_roomCode (conns seated 1) = Some ''1234''"
  "ws_roomCode (conns seated 2) = Some ''1234''"
  unfolding seated_def by code_simp+

lemma seated_clientId: "ws_clientId (conns seated 2) = Some ''c2''"
  unfolding seated_def by code_simp

lemma seated_open: "is_open seated 0"
  unfolding seated_def by code_simp

lemma seated_fresh:
  "fresh_run init_world (two_seated ''c1'' ''c2'' @ [Message 0 (Some open_msg) (draws '''')])"
  by code_simp

lemma answered_rooms:
  "rooms answered ''1234'' = Some (seated_room\<lparr>activeResponder := JStr ''c1''\<rparr>)"
  unfolding answered_def seated_def seated_room_def by code_simp

lemma answered_roomCode: "ws_roomCode (conns answered 0) = Some ''1234''"
  unfolding answered_def seated_def by code_simp

lemma busy_rooms: "rooms busy ''1234'' = Some busy_room"
  unfolding busy_def answered_def seated_def busy_room_def by code_simp

lemma waiting_rooms: "rooms waiting ''1234'' = Some waiting_room"
  unfolding waiting_def waiting_room_def by code_simp

lemma waiting_conn:
  "ws_pendingRequestId (conns waiting 1) = Some ''req1''" "host_open waiting waiting_room"
  unfolding waiting_def waiting_room_def by code_simp+

lemma unprompted_responder: "responder (run unprompted) ''1234'' = Some (JStr ''c1'')"
  unfolding unprompted_def by code_simp

subsection \<open>Slot assignment\<close>

lemma assignSlot_loop_None:
  "assignSlot_loop ids r name ws cid = None \<longleftrightarrow> (\<forall>s \<in> set ids. slots_get r s \<noteq> None)"
  by (induction ids) auto

lemma assignSlot_loop_Some:
  "assignSlot_loop ids r name ws cid = Some (r', slotId, clientId) \<Longrightarrow>
   (\<exists>pre post. ids = pre @ slotId # post \<and> (\<forall>s \<in> set pre. slots_get r s \<noteq> None)) \<and>
   slots_get r slotId = None \<and> clientId = cid \<and>
   r' = r\<lparr>slots := AList.update slotId (Some \<lparr>slot_clientId = cid, slot_name = name\<rparr>) (slots r),
          contestants := AList.update cid
             \<lparr>entry_ws = ws, entry_name = name, entry_slotId = slotId\<rparr> (contestants r)\<rparr>"
proof (induction ids)
  case Nil
  then show ?case by simp
next
  case (Cons a ids)
  show ?case
  proof (cases "slots_get r a = None")
    case True
    with Cons.prems have "slotId = a" "clientId = cid"
      "r' = r\<lparr>slots := AList.update a (Some \<lparr>slot_clientId = cid, slot_name = name\<rparr>) (slots r),
          contestants := AList.update cid
             \<lparr>entry_ws = ws, entry_name = name, entry_slotId = a\<rparr> (contestants r)\<rparr>"
      by auto
    moreover have "a # ids = [] @ a # ids \<and> (\<forall>s \<in> set []. slots_get r s \<noteq> None)"
      by simp
    ultimately show ?thesis using True by blast
  next
    case False
    with Cons.prems have "assignSlot_loop ids r name ws cid = Some (r', slotId, clientId)"
      by simp
    from Cons.IH [OF this] obtain pre post where
      pp: "ids = pre @ slotId # post" "\<forall>s \<in> set pre. slots_get r s \<noteq> None"
      and rest: "slots_get r slotId = None" "clientId = cid"
      "r' = r\<lparr>slots := AList.update slotId (Some \<lparr>slot_clientId = cid, slot_name = name\<rparr>) (slots r),
          contestants := AList.update cid
             \<lparr>entry_ws = ws, entry_name = name, entry_slotId = slotId\<rparr> (contestants r)\<rparr>"
      by blast
    have "a # ids = (a # pre) @ slotId # post \<and> (\<forall>s \<in> set (a # pre). slots_get r s \<noteq> None)"
      using pp False by simp
    then show ?thesis using rest by blast
  qed
qed

text \<open>
  C9. \<open>assignSlot\<close> is first-fit over contestant-1, contestant-2, contestant-3. It returns
  \<open>null\<close> exactly when each of the three slots holds a contestant. Otherwise the slot it
  returns is empty and every slot before it in \<open>SLOT_IDS\<close> is taken, the client id it
  returns is the one drawn, and the room it leaves differs from the room it found in
  the two mirrored entries only: \<open>{clientId, name}\<close> in that slot and
  \<open>{ws, name, slotId}\<close> under the client id in \<open>contestants\<close>.
\<close>

theorem assignSlot_first_fit:
  "(assignSlot r name ws cid = None \<longleftrightarrow> (\<forall>s \<in> set SLOT_IDS. slots_get r s \<noteq> None)) \<and>
   (\<forall>r' slotId clientId.
      assignSlot r name ws cid = Some (r', slotId, clientId) \<longrightarrow>
        (\<exists>pre post. SLOT_IDS = pre @ slotId # post \<and> (\<forall>s \<in> set pre. slots_get r s \<noteq> None)) \<and>
        slots_get r slotId = None \<and> clientId = cid \<and>
        r' = r\<lparr>slots := AList.update slotId
                          (Some \<lparr>slot_clientId = cid, slot_name = name\<rparr>) (slots r),
               contestants := AList.update cid
                          \<lparr>entry_ws = ws, entry_name = name, entry_slotId = slotId\<rparr>
                          (contestants r)\<rparr>)"
  unfolding assignSlot_def
  using assignSlot_loop_None [of SLOT_IDS r name ws cid]
    assignSlot_loop_Some [of SLOT_IDS r name ws cid]
  by blast

theorem assignSlot_first_fit_witness:
  "slots_get seated_room ''contestant-3'' = None \<and>
   assignSlot seated_room ''Casey'' 3 ''c3'' =
     Some (seated_room\<lparr>slots := AList.update ''contestant-3''
                          (Some \<lparr>slot_clientId = ''c3'', slot_name = ''Casey''\<rparr>)
                          (slots seated_room),
                        contestants := AList.update ''c3''
                          \<lparr>entry_ws = 3, entry_name = ''Casey'',
                           entry_slotId = ''contestant-3''\<rparr>
                          (contestants seated_room)\<rparr>,
           ''contestant-3'', ''c3'')"
proof -
  let ?a = "assignSlot seated_room ''Casey'' 3 ''c3''"
  note ff = assignSlot_first_fit [of seated_room "''Casey''" 3 "''c3''"]
  have free: "slots_get seated_room ''contestant-3'' = None"
    by (simp add: slots_get_def seated_room_def)
  have taken: "slots_get seated_room ''contestant-1'' \<noteq> None"
    "slots_get seated_room ''contestant-2'' \<noteq> None"
    by (simp_all add: slots_get_def seated_room_def)
  have "?a \<noteq> None"
    using ff free by (auto simp add: SLOT_IDS_def)
  then obtain r' s c where a: "?a = Some (r', s, c)"
    by (cases ?a) auto
  from ff a obtain pre post where "SLOT_IDS = pre @ s # post"
    and s: "slots_get seated_room s = None"
    by blast
  then have "s \<in> set SLOT_IDS"
    by (metis in_set_conv_decomp)
  then have "s = ''contestant-3''"
    using s taken by (auto simp add: SLOT_IDS_def)
  with ff a free show ?thesis
    by simp
qed

subsection \<open>The three slots of a room\<close>

lemma slots_fixed_helpers [simp]:
  "slots_fixed (send ws d w) = slots_fixed w"
  "slots_fixed (ws_close ws w) = slots_fixed w"
  "slots_fixed (upd_conn ws f w) = slots_fixed w"
  "slots_fixed (send_host r d w) = slots_fixed w"
  "slots_fixed (broadcastToContestants k d w) = slots_fixed w"
  "slots_fixed (notifyJoinRequestRemoval k i reason w) = slots_fixed w"
  "slots_fixed (fold (\<lambda>(cid, e). ws_close (entry_ws e)) cs w) = slots_fixed w"
  by (simp_all add: slots_fixed_def)

lemma slots_fixed_upd_room:
  "slots_fixed w \<Longrightarrow>
   (\<And>r. rooms w k = Some r \<Longrightarrow> map fst (slots (f r)) = map fst (slots r)) \<Longrightarrow>
   slots_fixed (upd_room k f w)"
  by (auto simp add: slots_fixed_def rooms_upd_room split: option.splits)

lemma slots_fixed_clearPending:
  "slots_fixed w \<Longrightarrow> slots_fixed (clearPendingRequests k reason w)"
  by (auto simp add: slots_fixed_def split: option.splits)

lemma fixed_register: "slots_fixed w \<Longrightarrow> slots_fixed (handleRegisterHost ws m g w)"
  by (auto simp add: slots_fixed_def rooms_handleRegisterHost Let_def SLOT_IDS_def
      split: option.splits if_splits)

lemma fixed_join: "slots_fixed w \<Longrightarrow> slots_fixed (handleJoinContestant ws m g w)"
  by (auto simp add: handleJoinContestant_def Let_def getRoom_def
      intro!: slots_fixed_upd_room split: option.splits)

lemma fixed_broadcast: "slots_fixed w \<Longrightarrow> slots_fixed (handleBroadcast ws m w)"
  by (auto simp add: handleBroadcast_def split: option.splits)

lemma fixed_buzzers: "slots_fixed w \<Longrightarrow> slots_fixed (handleBuzzersState ws m w)"
  by (auto simp add: handleBuzzersState_def Let_def getRoom_def
      intro!: slots_fixed_upd_room split: option.splits)

lemma fixed_result: "slots_fixed w \<Longrightarrow> slots_fixed (handleBuzzResult ws m w)"
  by (auto simp add: handleBuzzResult_def Let_def getRoom_def
      intro!: slots_fixed_upd_room split: option.splits)

lemma fixed_buzz: "slots_fixed w \<Longrightarrow> slots_fixed (handleContestantBuzz ws m w)"
  using handleContestantBuzz_frame [of ws m w] by (auto simp add: slots_fixed_def)

lemma fixed_deny: "slots_fixed w \<Longrightarrow> slots_fixed (handleDenyContestant ws m w)"
  by (auto simp add: handleDenyContestant_def Let_def getRoom_def
      intro!: slots_fixed_upd_room split: option.splits)

lemma assignSlot_keys:
  assumes "assignSlot r name ws cid = Some (r', a, b)" and "map fst (slots r) = SLOT_IDS"
  shows "map fst (slots r') = SLOT_IDS"
proof -
  from assms(1) have "assignSlot_loop SLOT_IDS r name ws cid = Some (r', a, b)"
    by (simp add: assignSlot_def)
  from assignSlot_loop_Some [OF this] obtain pre post where
    "SLOT_IDS = pre @ a # post"
    and r': "slots r' = AList.update a (Some \<lparr>slot_clientId = cid, slot_name = name\<rparr>) (slots r)"
    by auto
  then have "a \<in> set (map fst (slots r))"
    using assms(2) by (metis in_set_conv_decomp)
  then show ?thesis
    using assms(2) by (simp add: r' update_keys)
qed

lemma fixed_approve:
  assumes w: "slots_fixed w"
  shows "slots_fixed (handleApproveContestant ws m g w)"
proof (cases "getRoom w (ws_roomCode (conns w ws))")
  case None
  then show ?thesis using w by (simp add: handleApproveContestant_def)
next
  case (Some kr)
  obtain k r where kr: "kr = (k, r)" by (cases kr)
  from Some kr have r: "rooms w k = Some r"
    by (auto simp add: getRoom_def split: option.splits)
  with w have keys: "map fst (slots r) = SLOT_IDS"
    by (simp add: slots_fixed_def)
  have put: "slots_fixed (upd_room k (\<lambda>_. r') w')"
    if "map fst (slots r') = SLOT_IDS" "slots_fixed w'" for r' w'
    using that by (auto simp add: slots_fixed_def rooms_upd_room split: option.splits)
  have seat: "map fst (slots r2) = SLOT_IDS"
    if "assignSlot (r\<lparr>pendingJoins := ps\<rparr>) name cw (gen_id g) = Some (r2, a, b)"
    for ps name cw r2 a b
    using assignSlot_keys [OF that] keys by simp
  show ?thesis
    using Some kr w keys put seat
    by (auto simp add: handleApproveContestant_def Let_def split: option.splits)
qed

lemma clear_slots_keys: "map fst (slots (clear_slots r)) = map fst (slots r)"
  by (simp add: clear_slots_def comp_def split_def)

lemma fixed_close_host: "slots_fixed w \<Longrightarrow> slots_fixed (close_host ws w)"
  by (auto simp add: close_host_def Let_def getRoom_def clear_slots_keys
      intro!: slots_fixed_clearPending slots_fixed_upd_room split: option.splits)

lemma fixed_close_pending: "slots_fixed w \<Longrightarrow> slots_fixed (close_pending ws k w)"
  by (auto simp add: close_pending_def intro!: slots_fixed_upd_room split: option.splits)

lemma slots_get_key: "slots_get r a = Some s \<Longrightarrow> a \<in> set (map fst (slots r))"
  by (auto simp add: slots_get_def rev_image_eqI split: option.splits dest: map_of_SomeD)

lemma fixed_close_contestant:
  assumes w: "slots_fixed w"
  shows "slots_fixed (close_contestant ws k w)"
proof (cases "rooms w k")
  case None
  then show ?thesis using w by (simp add: close_contestant_def)
next
  case (Some r)
  with w have keys: "map fst (slots r) = SLOT_IDS"
    by (simp add: slots_fixed_def)
  have scan: "map fst (scan_slots cid (slots r)) = SLOT_IDS" for cid
    using keys by (simp add: scan_slots_def comp_def split_def)
  have hit: "map fst (AList.update a None (slots r)) = SLOT_IDS"
    if "slots_get r a = Some s" for a s
    using slots_get_key [OF that] keys by (simp add: update_keys)
  show ?thesis
    using Some w scan hit
    by (auto simp add: close_contestant_def Let_def slots_fixed_def upd_room_def
        split: option.splits if_splits)
qed

lemma fixed_close: "slots_fixed w \<Longrightarrow> slots_fixed (on_close ws w)"
  by (auto simp add: on_close_def Let_def fixed_close_host fixed_close_pending
      fixed_close_contestant split: option.splits)

lemma fixed_step: "slots_fixed w \<Longrightarrow> slots_fixed (step w e)"
proof (cases e)
  case (Close ws)
  assume "slots_fixed w"
  with Close show ?thesis by (simp add: fixed_close)
next
  case (Message ws raw g)
  assume w: "slots_fixed w"
  show ?thesis
  proof (cases raw)
    case None
    with Message w show ?thesis by (simp add: handleMessage_def)
  next
    case (Some m)
    with Message w handleMessage_dispatch [of ws m g w] show ?thesis
      by (auto simp add: fixed_register fixed_join fixed_broadcast fixed_buzzers
          fixed_result fixed_buzz fixed_approve fixed_deny)
  qed
qed

lemma slots_fixed_run: "slots_fixed (run es)"
proof (induction es rule: rev_induct)
  case Nil
  show ?case by (simp add: run_def slots_fixed_def init_world_def)
next
  case (snoc e es)
  then show ?case by (simp add: run_snoc fixed_step)
qed

lemma reachable_slots: "rooms (run es) k = Some r \<Longrightarrow> map fst (slots r) = SLOT_IDS"
  using slots_fixed_run [of es] by (simp add: slots_fixed_def)

subsection \<open>Host registration\<close>

text \<open>
  C6. A registration for a code whose room exists leaves that room with the registering
  connection as host, the three slots empty, no contestants, no pending requests, the
  buzzers closed and no responder, whatever the room held before; the connection is
  marked as host of that room. The room is any room with the three slots of
  \<open>SLOT_IDS\<close>, as every room of every run is (\<open>reachable_slots\<close>).
\<close>

theorem register_host_resets:
  assumes "str_or (sanitizeRoomCode (msg_roomCode m)) (generateRoomCode (gen_room g)) = k"
    and "rooms w k = Some r" and "map fst (slots r) = SLOT_IDS"
  shows "rooms (handleRegisterHost ws m g w) k =
           Some \<lparr>code = code r, host = Some ws, contestants = [],
                 slots = map (\<lambda>s. (s, None)) SLOT_IDS,
                 buzzersOpen = False, activeResponder = JNull, pendingJoins = []\<rparr> \<and>
         ws_isHost (conns (handleRegisterHost ws m g w) ws) \<and>
         ws_roomCode (conns (handleRegisterHost ws m g w) ws) = Some (code r)"
  using assms conns_handleRegisterHost [of ws m g w]
  by (simp add: rooms_handleRegisterHost Let_def)

theorem register_host_resets_witness:
  "str_or (sanitizeRoomCode (msg_roomCode (register_msg ''1234'')))
          (generateRoomCode (gen_room (draws ''''))) = ''1234'' \<and>
   rooms busy ''1234'' = Some busy_room \<and> map fst (slots busy_room) = SLOT_IDS \<and>
   occupied busy_room = 3 \<and> n_contestants busy_room = 3 \<and>
   rooms (handleRegisterHost 0 (register_msg ''1234'') (draws '''') busy) ''1234'' =
     Some \<lparr>code = ''1234'', host = Some 0, contestants = [],
           slots = [(''contestant-1'', None), (''contestant-2'', None), (''contestant-3'', None)],
           buzzersOpen = False, activeResponder = JNull, pendingJoins = []\<rparr>"
proof -
  have c: "str_or (sanitizeRoomCode (msg_roomCode (register_msg ''1234'')))
          (generateRoomCode (gen_room (draws ''''))) = ''1234''"
    by (simp add: register_msg_def msg_of_def sanitizeRoomCode_def str_or_def is_digit_def
        ROOM_CODE_LENGTH_def)
  have s: "map fst (slots busy_room) = SLOT_IDS"
    by (simp add: busy_room_def SLOT_IDS_def)
  have n: "occupied busy_room = 3" "n_contestants busy_room = 3"
    by (simp_all add: occupied_def n_contestants_def busy_room_def)
  show ?thesis
    using register_host_resets [OF c busy_rooms s, of 0] c busy_rooms s n
    by (simp add: SLOT_IDS_def busy_room_def)
qed

subsection \<open>Slots and contestants mirror each other\<close>

lemma update_fresh_append:
  "k \<notin> set (map fst al) \<Longrightarrow> AList.update k v al = al @ [(k, v)]"
  by (induction al) auto

lemma slot_pairs_Cons:
  "slot_pairs ((a, v) # sl) =
     (case v of None \<Rightarrow> [] | Some s \<Rightarrow> [(a, slot_clientId s)]) @ slot_pairs sl"
  by (simp add: slot_pairs_def)

lemma slot_pairs_Nil [simp]: "slot_pairs [] = []"
  by (simp add: slot_pairs_def)

lemma slot_pairs_seat:
  "distinct (map fst sl) \<Longrightarrow> map_of sl a = Some None \<Longrightarrow>
   mset (slot_pairs (AList.update a (Some s) sl)) =
     add_mset (a, slot_clientId s) (mset (slot_pairs sl))"
proof (induction sl)
  case Nil
  then show ?case by simp
next
  case (Cons p sl)
  obtain b v where p: "p = (b, v)" by (cases p)
  show ?case
  proof (cases "b = a")
    case True
    with Cons.prems p show ?thesis
      by (simp add: slot_pairs_Cons)
  next
    case False
    with Cons p show ?thesis
      by (simp add: slot_pairs_Cons split: option.splits)
  qed
qed

lemma slot_pairs_free:
  "distinct (map fst sl) \<Longrightarrow> map_of sl a = Some (Some s) \<Longrightarrow>
   add_mset (a, slot_clientId s) (mset (slot_pairs (AList.update a None sl))) =
     mset (slot_pairs sl)"
proof (induction sl)
  case Nil
  then show ?case by simp
next
  case (Cons p sl)
  obtain b v where p: "p = (b, v)" by (cases p)
  show ?case
  proof (cases "b = a")
    case True
    with Cons.prems p show ?thesis
      by (simp add: slot_pairs_Cons)
  next
    case False
    with Cons p show ?thesis
      by (simp add: slot_pairs_Cons split: option.splits)
  qed
qed

lemma slot_pairs_member:
  "(a, c) \<in> set (slot_pairs sl) \<Longrightarrow> distinct (map fst sl) \<Longrightarrow>
   \<exists>s. map_of sl a = Some (Some s) \<and> slot_clientId s = c"
proof (induction sl)
  case Nil
  then show ?case by simp
next
  case (Cons p sl)
  obtain b v where p: "p = (b, v)" by (cases p)
  show ?case
  proof (cases "(a, c) \<in> set (slot_pairs sl)")
    case True
    with Cons p have "\<exists>s. map_of sl a = Some (Some s) \<and> slot_clientId s = c"
      by simp
    moreover from this Cons.prems p have "b \<noteq> a"
      by (auto dest: map_of_SomeD simp add: rev_image_eqI)
    ultimately show ?thesis using p by simp
  next
    case False
    with Cons.prems p show ?thesis
      by (auto simp add: slot_pairs_Cons split: option.splits)
  qed
qed

lemma entry_pairs_delete:
  "distinct (map fst cs) \<Longrightarrow> map_of cs cid = Some e \<Longrightarrow>
   add_mset (entry_slotId e, cid) (mset (entry_pairs (AList.delete cid cs))) =
     mset (entry_pairs cs)"
proof (induction cs)
  case Nil
  then show ?case by simp
next
  case (Cons p cs)
  obtain b v where p: "p = (b, v)" by (cases p)
  show ?case
  proof (cases "b = cid")
    case True
    with Cons.prems p have "AList.delete cid cs = cs"
      by (simp add: delete_id rev_image_eqI)
    with Cons.prems p True show ?thesis
      by (simp add: entry_pairs_def)
  next
    case False
    with Cons p show ?thesis
      by (simp add: entry_pairs_def)
  qed
qed

lemma room_inv_join:
  assumes inv: "room_inv r" and fresh: "cid \<notin> set (map fst (contestants r))"
    and a: "assignSlot r name ws cid = Some (r', slotId, clientId)"
  shows "room_inv r'"
proof -
  from a have "assignSlot_loop SLOT_IDS r name ws cid = Some (r', slotId, clientId)"
    by (simp add: assignSlot_def)
  from assignSlot_loop_Some [OF this] obtain pre post where
    ids: "SLOT_IDS = pre @ slotId # post" and free: "slots_get r slotId = None"
    and r': "r' = r\<lparr>slots := AList.update slotId
                        (Some \<lparr>slot_clientId = cid, slot_name = name\<rparr>) (slots r),
                     contestants := AList.update cid
                        \<lparr>entry_ws = ws, entry_name = name, entry_slotId = slotId\<rparr>
                        (contestants r)\<rparr>"
    by blast
  from inv have keys: "map fst (slots r) = SLOT_IDS" and d: "distinct (map fst (slots r))"
    and dc: "distinct (map fst (contestants r))"
    and eq: "mset (slot_pairs (slots r)) = mset (entry_pairs (contestants r))"
    by (simp_all add: room_inv_def SLOT_IDS_def)
  from ids keys have mem: "slotId \<in> set (map fst (slots r))"
    by (metis in_set_conv_decomp)
  then obtain v where "map_of (slots r) slotId = Some v"
    by (metis map_of_eq_None_iff not_Some_eq set_map)
  with free have null: "map_of (slots r) slotId = Some None"
    by (cases v) (simp_all add: slots_get_def)
  have k': "map fst (slots r') = SLOT_IDS"
    using mem keys by (simp add: r' update_keys)
  have d': "distinct (map fst (contestants r'))"
    using dc by (simp add: r' distinct_update)
  have "mset (slot_pairs (slots r')) = add_mset (slotId, cid) (mset (slot_pairs (slots r)))"
    using slot_pairs_seat [OF d null] by (simp add: r')
  moreover have "mset (entry_pairs (contestants r')) =
      add_mset (slotId, cid) (mset (entry_pairs (contestants r)))"
    using fresh by (simp add: r' update_fresh_append entry_pairs_def)
  ultimately show ?thesis
    using k' d' eq by (simp add: room_inv_def)
qed

lemma room_inv_seat_of:
  assumes inv: "room_inv r" and e: "map_of (contestants r) cid = Some e"
  shows "entry_slotId e \<noteq> [] \<and>
         (\<exists>s. map_of (slots r) (entry_slotId e) = Some (Some s) \<and> slot_clientId s = cid)"
proof -
  from inv have keys: "map fst (slots r) = SLOT_IDS" and d: "distinct (map fst (slots r))"
    and eq: "mset (slot_pairs (slots r)) = mset (entry_pairs (contestants r))"
    by (simp_all add: room_inv_def SLOT_IDS_def)
  from e have "(cid, e) \<in> set (contestants r)"
    by (rule map_of_SomeD)
  then have "(entry_slotId e, cid) \<in> set (entry_pairs (contestants r))"
    by (force simp add: entry_pairs_def)
  then have "(entry_slotId e, cid) \<in> set (slot_pairs (slots r))"
    using eq by (metis set_mset_mset)
  from slot_pairs_member [OF this d] obtain s where
    s: "map_of (slots r) (entry_slotId e) = Some (Some s)" "slot_clientId s = cid"
    by blast
  then have "entry_slotId e \<in> set SLOT_IDS"
    using keys by (metis map_of_SomeD set_zip_leftD zip_map_fst_snd set_map image_eqI fst_conv)
  then have "entry_slotId e \<noteq> []"
    by (auto simp add: SLOT_IDS_def)
  with s show ?thesis by blast
qed

lemma room_inv_leave:
  assumes inv: "room_inv r" and e: "map_of (contestants r) cid = Some e"
  shows "room_inv (r\<lparr>contestants := AList.delete cid (contestants r),
                     slots := AList.update (entry_slotId e) None (slots r)\<rparr>)"
proof -
  from inv have keys: "map fst (slots r) = SLOT_IDS" and d: "distinct (map fst (slots r))"
    and dc: "distinct (map fst (contestants r))"
    and eq: "mset (slot_pairs (slots r)) = mset (entry_pairs (contestants r))"
    by (simp_all add: room_inv_def SLOT_IDS_def)
  from room_inv_seat_of [OF inv e] obtain s where
    s: "map_of (slots r) (entry_slotId e) = Some (Some s)" "slot_clientId s = cid"
    by blast
  then have mem: "entry_slotId e \<in> set (map fst (slots r))"
    by (metis map_of_eq_None_iff option.distinct(1) set_map)
  have "add_mset (entry_slotId e, cid)
          (mset (slot_pairs (AList.update (entry_slotId e) None (slots r)))) =
        add_mset (entry_slotId e, cid)
          (mset (entry_pairs (AList.delete cid (contestants r))))"
    using slot_pairs_free [OF d s(1)] entry_pairs_delete [OF dc e] eq s(2) by simp
  then have "mset (slot_pairs (AList.update (entry_slotId e) None (slots r))) =
        mset (entry_pairs (AList.delete cid (contestants r)))"
    by simp
  then show ?thesis
    using keys mem dc by (simp add: room_inv_def update_keys distinct_delete)
qed

lemma room_inv_fields [simp]:
  "room_inv (r\<lparr>pendingJoins := p\<rparr>) = room_inv r"
  "room_inv (r\<lparr>host := h\<rparr>) = room_inv r"
  "room_inv (r\<lparr>buzzersOpen := b\<rparr>) = room_inv r"
  "room_inv (r\<lparr>activeResponder := a\<rparr>) = room_inv r"
  by (simp_all add: room_inv_def)

lemma world_inv_helpers [simp]:
  "world_inv (send ws d w) = world_inv w"
  "world_inv (ws_close ws w) = world_inv w"
  "world_inv (upd_conn ws f w) = world_inv w"
  "world_inv (send_host r d w) = world_inv w"
  "world_inv (broadcastToContestants k d w) = world_inv w"
  "world_inv (notifyJoinRequestRemoval k i reason w) = world_inv w"
  "world_inv (fold (\<lambda>(cid, e). ws_close (entry_ws e)) cs w) = world_inv w"
  "world_inv (fold (\<lambda>(cid, e) w. ws_close (entry_ws e) (send (entry_ws e) d w)) cs w) =
     world_inv w"
  by (simp_all add: world_inv_def)

lemma world_inv_upd_room:
  "world_inv w \<Longrightarrow> (\<And>r. rooms w k = Some r \<Longrightarrow> room_inv r \<Longrightarrow> room_inv (f r)) \<Longrightarrow>
   world_inv (upd_room k f w)"
  by (auto simp add: world_inv_def rooms_upd_room split: option.splits)

lemma world_inv_clearPending:
  "world_inv w \<Longrightarrow> world_inv (clearPendingRequests k reason w)"
  by (auto simp add: world_inv_def split: option.splits)

lemma world_inv_init: "world_inv init_world"
  by (simp add: world_inv_def init_world_def)

lemma room_inv_blank:
  "room_inv \<lparr>code = c, host = h, contestants = [],
     slots = map (\<lambda>s. (s, None)) SLOT_IDS,
     buzzersOpen = b, activeResponder = a, pendingJoins = p\<rparr>"
  by (simp add: room_inv_def slot_pairs_def entry_pairs_def SLOT_IDS_def)

lemma room_inv_cleared:
  "room_inv r \<Longrightarrow> room_inv (clear_slots (r\<lparr>contestants := []\<rparr>))"
  by (simp add: room_inv_def clear_slots_def slot_pairs_def entry_pairs_def split_def comp_def)

lemma inv_register:
  assumes "world_inv w"
  shows "world_inv (handleRegisterHost ws m g w)"
proof -
  define k where "k = str_or (sanitizeRoomCode (msg_roomCode m)) (generateRoomCode (gen_room g))"
  have "(case rooms w k of None \<Rightarrow> SLOT_IDS | Some r \<Rightarrow> map fst (slots r)) = SLOT_IDS"
    using assms by (auto simp add: world_inv_def room_inv_def split: option.splits)
  then obtain c where "rooms (handleRegisterHost ws m g w) =
    (rooms w)(k \<mapsto> \<lparr>code = c, host = Some ws, contestants = [],
       slots = map (\<lambda>s. (s, None)) SLOT_IDS,
       buzzersOpen = False, activeResponder = JNull, pendingJoins = []\<rparr>)"
    by (simp add: rooms_handleRegisterHost Let_def k_def)
  then show ?thesis
    using assms room_inv_blank by (simp add: world_inv_def)
qed

lemma inv_join: "world_inv w \<Longrightarrow> world_inv (handleJoinContestant ws m g w)"
  by (auto simp add: handleJoinContestant_def Let_def getRoom_def
      intro!: world_inv_upd_room split: option.splits)

lemma inv_broadcast: "world_inv w \<Longrightarrow> world_inv (handleBroadcast ws m w)"
  by (auto simp add: handleBroadcast_def split: option.splits)

lemma inv_buzzers: "world_inv w \<Longrightarrow> world_inv (handleBuzzersState ws m w)"
  by (auto simp add: handleBuzzersState_def Let_def getRoom_def
      intro!: world_inv_upd_room split: option.splits)

lemma inv_result: "world_inv w \<Longrightarrow> world_inv (handleBuzzResult ws m w)"
  by (auto simp add: handleBuzzResult_def Let_def getRoom_def
      intro!: world_inv_upd_room split: option.splits)

lemma inv_buzz: "world_inv w \<Longrightarrow> world_inv (handleContestantBuzz ws m w)"
  using handleContestantBuzz_frame [of ws m w] by (auto simp add: world_inv_def)

lemma inv_deny: "world_inv w \<Longrightarrow> world_inv (handleDenyContestant ws m w)"
  by (auto simp add: handleDenyContestant_def Let_def getRoom_def
      intro!: world_inv_upd_room split: option.splits)

lemma inv_approve:
  assumes w: "world_inv w"
    and fresh: "\<And>k r. getRoom w (ws_roomCode (conns w ws)) = Some (k, r) \<Longrightarrow>
           gen_id g \<notin> set (map fst (contestants r))"
  shows "world_inv (handleApproveContestant ws m g w)"
proof (cases "getRoom w (ws_roomCode (conns w ws))")
  case None
  then show ?thesis using w by (simp add: handleApproveContestant_def)
next
  case (Some kr)
  obtain k r where kr: "kr = (k, r)" by (cases kr)
  from Some kr have r: "rooms w k = Some r"
    by (auto simp add: getRoom_def split: option.splits)
  with w have inv: "room_inv r"
    by (simp add: world_inv_def)
  from fresh Some kr have new: "gen_id g \<notin> set (map fst (contestants r))"
    by simp
  have put: "world_inv (upd_room k (\<lambda>_. r') w')" if "room_inv r'" "world_inv w'" for r' w'
    using that by (intro world_inv_upd_room)
  have seat: "room_inv r2"
    if "assignSlot (r\<lparr>pendingJoins := ps\<rparr>) name cw (gen_id g) = Some (r2, a, b)"
    for ps name cw r2 a b
    using room_inv_join [OF _ _ that] inv new by simp
  show ?thesis
    using Some kr w inv put seat
    by (auto simp add: handleApproveContestant_def Let_def split: option.splits)
qed

lemma inv_close_host: "world_inv w \<Longrightarrow> world_inv (close_host ws w)"
  by (auto simp add: close_host_def Let_def getRoom_def room_inv_cleared
      intro!: world_inv_clearPending world_inv_upd_room split: option.splits)

lemma inv_close_pending: "world_inv w \<Longrightarrow> world_inv (close_pending ws k w)"
  by (auto simp add: close_pending_def intro!: world_inv_upd_room split: option.splits)

lemma inv_close_contestant:
  assumes w: "world_inv w"
  shows "world_inv (close_contestant ws k w)"
proof (cases "rooms w k")
  case None
  then show ?thesis using w by (simp add: close_contestant_def)
next
  case (Some r)
  with w have inv: "room_inv r"
    by (simp add: world_inv_def)
  have hit: "entry_slotId e \<noteq> [] \<and>
      (case slots_get r (entry_slotId e) of None \<Rightarrow> False | Some s \<Rightarrow> slot_clientId s = cid)"
    if "map_of (contestants r) cid = Some e" for cid e
    using room_inv_seat_of [OF inv that] by (auto simp add: slots_get_def)
  have leave: "world_inv (w\<lparr>rooms := (rooms w)(k \<mapsto>
        r\<lparr>contestants := AList.delete cid (contestants r),
          slots := AList.update (entry_slotId e) None (slots r)\<rparr>)\<rparr>)"
    if "map_of (contestants r) cid = Some e" for cid e
    using w room_inv_leave [OF inv that] by (simp add: world_inv_def)
  show ?thesis
    using Some w hit leave
    by (auto simp add: close_contestant_def Let_def upd_room_def split: option.splits)
qed

lemma inv_close: "world_inv w \<Longrightarrow> world_inv (on_close ws w)"
  by (auto simp add: on_close_def Let_def inv_close_host inv_close_pending
      inv_close_contestant split: option.splits)

lemma inv_step:
  assumes "world_inv w" and "mints_fresh w e"
  shows "world_inv (step w e)"
proof (cases e)
  case (Close ws)
  with assms show ?thesis by (simp add: inv_close)
next
  case (Message ws raw g)
  show ?thesis
  proof (cases raw)
    case None
    with Message assms show ?thesis by (simp add: handleMessage_def)
  next
    case (Some m)
    have "world_inv (handleApproveContestant ws m g w)"
      if "msg_action m = JStr ''approve-contestant''"
      using assms Message Some that by (intro inv_approve) auto
    then show ?thesis
      using Message Some assms(1)
      by (auto simp add: handleMessage_def Let_def inv_register inv_join inv_broadcast
          inv_buzzers inv_result inv_buzz inv_deny)
  qed
qed

lemma inv_run:
  "world_inv w \<Longrightarrow> fresh_run w es \<Longrightarrow> world_inv (foldl step w es)"
  by (induction es arbitrary: w) (simp_all add: inv_step)

lemma room_inv_count:
  assumes "room_inv r"
  shows "occupied r = n_contestants r"
proof -
  have "length (filter (\<lambda>(slotId, v). v \<noteq> None) sl) = length (slot_pairs sl)" for sl
    by (induction sl) (auto simp add: slot_pairs_Cons split: option.splits)
  then have "occupied r = size (mset (slot_pairs (slots r)))"
    by (simp add: occupied_def)
  also have "\<dots> = size (mset (entry_pairs (contestants r)))"
    using assms by (simp add: room_inv_def)
  also have "\<dots> = n_contestants r"
    by (simp add: n_contestants_def entry_pairs_def)
  finally show ?thesis .
qed

text \<open>
  C1, as amended. Take any run from the start of the server (registrations, joins,
  approvals, denials, buzzes, the host's buzzer actions, closes of hosts and
  contestants) in which every approval draws a client id that is not yet a key of
  \<open>contestants\<close> in the approving host's room. After it, in every room, the number of
  slots that hold a contestant is the number of entries of \<open>contestants\<close>.
\<close>

theorem seats_mirror_contestants:
  assumes "fresh_run init_world es" and "rooms (run es) k = Some r"
  shows "occupied r = n_contestants r"
proof -
  have "world_inv (run es)"
    unfolding run_def using world_inv_init assms(1) by (rule inv_run)
  with assms(2) have "room_inv r"
    by (simp add: world_inv_def)
  then show ?thesis
    by (rule room_inv_count)
qed

theorem seats_mirror_contestants_witness:
  "fresh_run init_world (two_seated ''c1'' ''c2'' @ [Message 0 (Some open_msg) (draws '''')]) \<and>
   rooms (run (two_seated ''c1'' ''c2'' @ [Message 0 (Some open_msg) (draws '''')])) ''1234'' =
     Some seated_room \<and>
   occupied seated_room = 2 \<and> n_contestants seated_room = 2"
proof -
  have r: "rooms (run (two_seated ''c1'' ''c2'' @ [Message 0 (Some open_msg) (draws '''')]))
             ''1234'' = Some seated_room"
    using seated_rooms by (simp add: seated_def)
  have "n_contestants seated_room = 2"
    by (simp add: n_contestants_def seated_room_def)
  then show ?thesis
    using seats_mirror_contestants [OF seated_fresh r] seated_fresh r by simp
qed

text \<open>
  Without that condition the numbers can differ. \<open>generateClientId\<close> is not checked
  against the ids in use: when the two approvals draw the same id, the second entry of
  \<open>contestants\<close> replaces the first, and two slots are taken by one entry.
\<close>

theorem seats_mirror_contestants_counterexample:
  "map_option occupied (rooms (run (two_seated ''dup'' ''dup'')) ''1234'') = Some 2 \<and>
   map_option n_contestants (rooms (run (two_seated ''dup'' ''dup'')) ''1234'') = Some 1"
  by code_simp

subsection \<open>Who writes the lock\<close>

lemma assignSlot_responder:
  "assignSlot r name ws cid = Some (r', a, b) \<Longrightarrow> activeResponder r' = activeResponder r"
  using assignSlot_loop_Some [of SLOT_IDS r name ws cid r' a b]
  by (simp add: assignSlot_def)

lemma responder_register:
  "responder (handleRegisterHost ws m g w) k = Some v \<Longrightarrow> v \<noteq> JNull \<Longrightarrow>
   responder w k = Some v"
  by (auto simp add: responder_def rooms_handleRegisterHost Let_def split: if_splits)

lemma responder_join:
  "responder (handleJoinContestant ws m g w) k = responder w k"
  by (auto simp add: responder_def handleJoinContestant_def Let_def getRoom_def rooms_upd_room
      split: option.splits)

lemma responder_broadcast:
  "responder (handleBroadcast ws m w) k = responder w k"
  by (auto simp add: responder_def handleBroadcast_def split: option.splits)

lemma responder_buzzers:
  "responder (handleBuzzersState ws m w) k = Some v \<Longrightarrow> v \<noteq> JNull \<Longrightarrow>
   responder w k = Some v"
  by (auto simp add: responder_def handleBuzzersState_def Let_def getRoom_def rooms_upd_room
      split: option.splits if_splits)

lemma responder_buzz:
  "responder (handleContestantBuzz ws m w) k = responder w k"
  using handleContestantBuzz_frame [of ws m w] by (auto simp add: responder_def)

lemma responder_deny:
  "responder (handleDenyContestant ws m w) k = responder w k"
  by (auto simp add: responder_def handleDenyContestant_def Let_def getRoom_def rooms_upd_room
      split: option.splits)

lemma responder_approve:
  "responder (handleApproveContestant ws m g w) k = responder w k"
  by (auto simp add: responder_def handleApproveContestant_def Let_def getRoom_def
      rooms_upd_room dest: assignSlot_responder split: option.splits)

lemma responder_close:
  "responder (on_close ws w) k = Some v \<Longrightarrow> v \<noteq> JNull \<Longrightarrow> responder w k = Some v"
  by (auto simp add: responder_def on_close_def close_host_def close_pending_def
      close_contestant_def clear_slots_def Let_def getRoom_def rooms_upd_room
      split: option.splits if_splits)

lemma responder_result:
  "responder (handleBuzzResult ws m w) k = Some v \<Longrightarrow> v \<noteq> JNull \<Longrightarrow>
   responder w k = Some v \<or>
   (ws_roomCode (conns w ws) = Some k \<and>
    (case rooms w k of None \<Rightarrow> False | Some r \<Rightarrow> host r = Some ws) \<and>
    (case msg_payload m of None \<Rightarrow> False | Some p \<Rightarrow> p_contestantId p = v))"
  by (auto simp add: responder_def handleBuzzResult_def Let_def getRoom_def rooms_upd_room
      js_or_def split: option.splits if_splits)

lemma responder_message:
  assumes "responder (handleMessage ws (Some m) g w) k = Some v" and "v \<noteq> JNull"
  shows "responder w k = Some v \<or> host_declares w (Message ws (Some m) g) k v"
proof -
  let ?w = "handleMessage ws (Some m) g w"
  consider "?w = w" | "?w = handleRegisterHost ws m g w"
    | "?w = handleJoinContestant ws m g w" | "?w = handleBroadcast ws m w"
    | "?w = handleBuzzersState ws m w"
    | "msg_action m = JStr ''buzz-result''" "?w = handleBuzzResult ws m w"
    | "?w = handleContestantBuzz ws m w"
    | "?w = handleApproveContestant ws m g w" | "?w = handleDenyContestant ws m w"
    using handleMessage_dispatch [of ws m g w] by blast
  then show ?thesis
  proof cases
    case 1
    with assms show ?thesis by simp
  next
    case 2
    with assms responder_register [of ws m g w k v] show ?thesis by simp
  next
    case 3
    with assms show ?thesis by (simp add: responder_join)
  next
    case 4
    with assms show ?thesis by (simp add: responder_broadcast)
  next
    case 5
    with assms responder_buzzers [of ws m w k v] show ?thesis by simp
  next
    case 6
    with assms responder_result [of ws m w k v] show ?thesis by simp
  next
    case 7
    with assms show ?thesis by (simp add: responder_buzz)
  next
    case 8
    with assms show ?thesis by (simp add: responder_approve)
  next
    case 9
    with assms show ?thesis by (simp add: responder_deny)
  qed
qed

lemma responder_step:
  assumes "responder (step w e) k = Some v" and "v \<noteq> JNull"
  shows "responder w k = Some v \<or> host_declares w e k v"
proof (cases e)
  case (Close ws)
  with assms responder_close [of ws w k v] show ?thesis by simp
next
  case (Message ws raw g)
  show ?thesis
  proof (cases raw)
    case None
    with Message assms show ?thesis by (simp add: handleMessage_def)
  next
    case (Some m)
    with Message assms responder_message [of ws m g w k v] show ?thesis by simp
  qed
qed

text \<open>
  C2, as amended. In every world reached from the start, \<open>activeResponder\<close> of a room is
  not \<open>null\<close> only if some earlier event of the run was a \<open>buzz-result\<close> message of the
  connection then bound as the room's host that named this value as the contestant id,
  and \<open>activeResponder\<close> has held the value after that event and after every later
  one. No buzz of a contestant is needed, and the buzzers need not have been opened.
\<close>

theorem responder_declared_by_host:
  assumes "responder (run es) k = Some v" and "v \<noteq> JNull"
  shows "\<exists>es1 e es2. es = es1 @ e # es2 \<and> host_declares (run es1) e k v \<and>
           (\<forall>n \<le> length es2. responder (run (es1 @ e # take n es2)) k = Some v)"
  using assms(1)
proof (induction es rule: rev_induct)
  case Nil
  then show ?case
    by (simp add: run_def init_world_def responder_def)
next
  case (snoc e es)
  from snoc.prems have now: "responder (step (run es) e) k = Some v"
    by (simp add: run_snoc)
  from responder_step [OF now assms(2)] show ?case
  proof
    assume "responder (run es) k = Some v"
    from snoc.IH [OF this] obtain es1 e0 es2 where
      split: "es = es1 @ e0 # es2" and decl: "host_declares (run es1) e0 k v"
      and held: "\<forall>n \<le> length es2. responder (run (es1 @ e0 # take n es2)) k = Some v"
      by blast
    have "responder (run (es1 @ e0 # take n (es2 @ [e]))) k = Some v"
      if "n \<le> length (es2 @ [e])" for n
    proof (cases "n \<le> length es2")
      case True
      with held show ?thesis by simp
    next
      case False
      with that have "take n (es2 @ [e]) = es2 @ [e]" by simp
      with snoc.prems split show ?thesis by simp
    qed
    with split decl show ?thesis
      by (intro exI [of _ es1] exI [of _ e0] exI [of _ "es2 @ [e]"]) simp
  next
    assume "host_declares (run es) e k v"
    with snoc.prems show ?thesis
      by (intro exI [of _ es] exI [of _ e] exI [of _ "[]"]) simp
  qed
qed

theorem responder_declared_by_host_witness:
  "responder (run unprompted) ''1234'' = Some (JStr ''c1'') \<and> JStr ''c1'' \<noteq> JNull \<and>
   (\<exists>es1 e es2. unprompted = es1 @ e # es2 \<and>
      host_declares (run es1) e ''1234'' (JStr ''c1'') \<and>
      (\<forall>n \<le> length es2. responder (run (es1 @ e # take n es2)) ''1234'' = Some (JStr ''c1'')))"
proof -
  have n: "JStr ''c1'' \<noteq> JNull"
    by simp
  show ?thesis
    using responder_declared_by_host [OF unprompted_responder n] unprompted_responder
    by simp
qed

text \<open>
  As first stated, with a buzz of a contestant after the last opening, the property
  fails: the host's \<open>buzz-result\<close> sets the lock in a room whose buzzers were never
  opened, in a run with no \<open>contestant-buzz\<close> message at all.
\<close>

theorem responder_without_buzz_counterexample:
  "responder (run unprompted) ''1234'' = Some (JStr ''c1'') \<and>
   map_option buzzersOpen (rooms (run unprompted) ''1234'') = Some False \<and>
   \<not> list_ex is_buzz unprompted"
  unfolding unprompted_def by code_simp

text \<open>
  C5. A \<open>buzzers-state\<close> message of the room's host whose \<open>open\<close> is truthy (\<open>true\<close> in
  particular) sets \<open>buzzersOpen\<close> to true and \<open>activeResponder\<close> to \<open>null\<close>, whatever
  \<open>activeResponder\<close> was; the other fields of the room stay.
\<close>

theorem open_buzzers_clears:
  assumes "ws_roomCode (conns w ws) = Some k" and "rooms w k = Some r"
    and "host r = Some ws" and "msg_payload m = Some p" and "truthy (p_open p)"
  shows "rooms (handleBuzzersState ws m w) k =
           Some (r\<lparr>buzzersOpen := True, activeResponder := JNull\<rparr>)"
  using assms
  by (simp add: handleBuzzersState_def getRoom_def Let_def)

theorem open_buzzers_clears_witness:
  "ws_roomCode (conns answered 0) = Some ''1234'' \<and>
   rooms answered ''1234'' = Some (seated_room\<lparr>activeResponder := JStr ''c1''\<rparr>) \<and>
   host (seated_room\<lparr>activeResponder := JStr ''c1''\<rparr>) = Some 0 \<and>
   msg_payload open_msg = Some (no_payload\<lparr>p_open := JBool True\<rparr>) \<and>
   truthy (p_open (no_payload\<lparr>p_open := JBool True\<rparr>)) \<and>
   rooms (handleBuzzersState 0 open_msg answered) ''1234'' = Some seated_room"
proof -
  have h: "host (seated_room\<lparr>activeResponder := JStr ''c1''\<rparr>) = Some 0"
    by (simp add: seated_room_def)
  have p: "msg_payload open_msg = Some (no_payload\<lparr>p_open := JBool True\<rparr>)"
    by (simp add: open_msg_def msg_of_def)
  have t: "truthy (p_open (no_payload\<lparr>p_open := JBool True\<rparr>))"
    by simp
  show ?thesis
    using open_buzzers_clears [OF answered_roomCode answered_rooms h p t]
      answered_roomCode answered_rooms h p
    by (simp add: seated_room_def)
qed

subsection \<open>The buzz of a contestant\<close>

text \<open>
  C3. A \<open>contestant-buzz\<close> message changes no room and no connection: the table of rooms
  and the fields of every connection after the message are those before it (so
  \<open>activeResponder\<close> is not written), and the only effect is what the handler sends.
\<close>

theorem contestant_buzz_frame:
  assumes "is_buzz e"
  shows "rooms (step w e) = rooms w \<and> conns (step w e) = conns w \<and>
         (\<exists>out. sent (step w e) = sent w @ out)"
proof -
  from assms obtain ws m g where e: "e = Message ws (Some m) g"
    and a: "msg_action m = JStr ''contestant-buzz''"
    by (cases e rule: is_buzz.cases) auto
  obtain out where out: "handleContestantBuzz ws m w = w\<lparr>sent := sent w @ out\<rparr>"
    using handleContestantBuzz_frame by blast
  have "step w e = w \<or> step w e = handleContestantBuzz ws m w"
    using e a by (simp add: handleMessage_def Let_def)
  then show ?thesis
    using out by auto
qed

theorem contestant_buzz_frame_witness:
  "is_buzz (Message 1 (Some (buzz_msg ''contestant-1'' ''c1'')) (draws '''')) \<and>
   rooms (step seated (Message 1 (Some (buzz_msg ''contestant-1'' ''c1'')) (draws ''''))) =
     rooms seated \<and>
   conns (step seated (Message 1 (Some (buzz_msg ''contestant-1'' ''c1'')) (draws ''''))) =
     conns seated"
  using contestant_buzz_frame
    [of "Message 1 (Some (buzz_msg ''contestant-1'' ''c1'')) (draws '''')" seated]
  by (simp add: buzz_msg_def msg_of_def)

text \<open>
  C4. When the claimed slot is empty (or no slot at all), or the claimed client id is not
  the one stored in the slot, the handler of \<open>contestant-buzz\<close> returns the world as it
  was: nothing is sent, neither to the host nor to the sender.
\<close>

theorem forged_buzz_ignored:
  assumes "ws_roomCode (conns w ws) = Some k" and "rooms w k = Some r"
    and "msg_payload m = Some p"
    and "\<not> slot_holds r (p_slotId p) (p_clientId p)"
  shows "handleContestantBuzz ws m w = w"
  using assms
  by (simp add: handleContestantBuzz_def getRoom_def slot_holds_def split: option.splits)

theorem forged_buzz_ignored_witness:
  "ws_roomCode (conns seated 2) = Some ''1234'' \<and>
   rooms seated ''1234'' = Some seated_room \<and>
   msg_payload (buzz_msg ''contestant-1'' ''c2'') =
     Some (no_payload\<lparr>p_slotId := JStr ''contestant-1'', p_clientId := JStr ''c2''\<rparr>) \<and>
   \<not> slot_holds seated_room (JStr ''contestant-1'') (JStr ''c2'') \<and>
   handleContestantBuzz 2 (buzz_msg ''contestant-1'' ''c2'') seated = seated"
proof -
  have p: "msg_payload (buzz_msg ''contestant-1'' ''c2'') =
     Some (no_payload\<lparr>p_slotId := JStr ''contestant-1'', p_clientId := JStr ''c2''\<rparr>)"
    by (simp add: buzz_msg_def msg_of_def)
  have h: "\<not> slot_holds seated_room (JStr ''contestant-1'') (JStr ''c2'')"
    by (simp add: slot_holds_def slots_get_val_def slots_get_def seated_room_def)
  show ?thesis
    using forged_buzz_ignored [OF seated_roomCode(3) seated_rooms p] h p
      seated_roomCode(3) seated_rooms
    by simp
qed

text \<open>
  C10. Whether a buzz is forwarded does not depend on who sends it. For every connection
  bound to the room, whatever its role and its own client id: when the slot id and the
  client id of the message are those of the slot's occupant, the buzzers are open, the
  host's connection is open and no responder is locked in, the message has exactly one
  effect, a \<open>contestant-buzz\<close> written to the host.
\<close>

theorem buzz_forward_any_sender:
  assumes "msg_action m = JStr ''contestant-buzz''"
    and "ws_roomCode (conns w ws) = Some k" and "k \<noteq> []" and "rooms w k = Some r"
    and "msg_payload m = Some p" and "truthy (p_slotId p)" and "truthy (p_clientId p)"
    and "slot_holds r (p_slotId p) (p_clientId p)"
    and "buzzersOpen r" and "host r = Some h" and "is_open w h"
    and "\<not> truthy (activeResponder r)"
  shows "step w (Message ws (Some m) g) =
           w\<lparr>sent := sent w @ [(h, ContestantBuzz (p_slotId p) (p_clientId p) (p_name p))]\<rparr>"
  using assms
  by (simp add: handleMessage_def Let_def handleContestantBuzz_def getRoom_def slot_holds_def
      host_open_def send_host_def send_def is_open_def split: option.splits)

theorem buzz_forward_any_sender_witness:
  "msg_action (buzz_msg ''contestant-1'' ''c1'') = JStr ''contestant-buzz'' \<and>
   ws_roomCode (conns seated 2) = Some ''1234'' \<and> ''1234'' \<noteq> [] \<and>
   ws_clientId (conns seated 2) = Some ''c2'' \<and>
   rooms seated ''1234'' = Some seated_room \<and>
   msg_payload (buzz_msg ''contestant-1'' ''c1'') =
     Some (no_payload\<lparr>p_slotId := JStr ''contestant-1'', p_clientId := JStr ''c1''\<rparr>) \<and>
   slot_holds seated_room (JStr ''contestant-1'') (JStr ''c1'') \<and>
   buzzersOpen seated_room \<and> host seated_room = Some 0 \<and> is_open seated 0 \<and>
   \<not> truthy (activeResponder seated_room) \<and>
   step seated (Message 2 (Some (buzz_msg ''contestant-1'' ''c1'')) (draws '''')) =
     seated\<lparr>sent := sent seated @
        [(0, ContestantBuzz (JStr ''contestant-1'') (JStr ''c1'') JUndefined)]\<rparr>"
proof -
  let ?p = "no_payload\<lparr>p_slotId := JStr ''contestant-1'', p_clientId := JStr ''c1''\<rparr>"
  have a: "msg_action (buzz_msg ''contestant-1'' ''c1'') = JStr ''contestant-buzz''"
    by (simp add: buzz_msg_def msg_of_def)
  have p: "msg_payload (buzz_msg ''contestant-1'' ''c1'') = Some ?p"
    by (simp add: buzz_msg_def msg_of_def)
  have t: "truthy (p_slotId ?p)" "truthy (p_clientId ?p)"
    by simp_all
  have h: "slot_holds seated_room (p_slotId ?p) (p_clientId ?p)"
    by (simp add: slot_holds_def slots_get_val_def slots_get_def seated_room_def)
  have r: "buzzersOpen seated_room" "host seated_room = Some 0"
    "\<not> truthy (activeResponder seated_room)"
    by (simp_all add: seated_room_def)
  have k: "''1234'' \<noteq> []"
    by simp
  show ?thesis
    using buzz_forward_any_sender [OF a seated_roomCode(3) k seated_rooms p t h r(1,2)
        seated_open r(3), of "draws ''''"]
      a seated_roomCode(3) seated_clientId seated_rooms p h r seated_open
    by (simp add: no_payload_def)
qed

subsection \<open>The join requests\<close>

text \<open>
  C8. When the room's host, on an open connection, approves a request id that is not a
  key of \<open>pendingJoins\<close>, the handler sends one \<open>contestant-request-error\<close> to the host
  and changes nothing else: rooms and connections are as before.
\<close>

theorem approve_missing_request:
  assumes "ws_roomCode (conns w ws) = Some k" and "rooms w k = Some r"
    and "host r = Some ws" and "is_open w ws"
    and "truthy (requestId_of m)" and "pending_get r (requestId_of m) = None"
  shows "handleApproveContestant ws m g w =
           w\<lparr>sent := sent w @ [(ws, ContestantRequestError (requestId_of m)
                                      ''Request no longer available.'')]\<rparr>"
  using assms
  by (simp add: handleApproveContestant_def getRoom_def Let_def send_def is_open_def)

theorem approve_missing_request_witness:
  "ws_roomCode (conns seated 0) = Some ''1234'' \<and>
   rooms seated ''1234'' = Some seated_room \<and>
   host seated_room = Some 0 \<and> is_open seated 0 \<and>
   truthy (requestId_of (approve_msg ''req1'')) \<and>
   pending_get seated_room (requestId_of (approve_msg ''req1'')) = None \<and>
   handleApproveContestant 0 (approve_msg ''req1'') (draws ''c3'') seated =
     seated\<lparr>sent := sent seated @ [(0, ContestantRequestError (JStr ''req1'')
                                          ''Request no longer available.'')]\<rparr>"
proof -
  have i: "requestId_of (approve_msg ''req1'') = JStr ''req1''"
    by (simp add: requestId_of_def approve_msg_def msg_of_def no_payload_def js_or_def)
  have h: "host seated_room = Some 0"
    by (simp add: seated_room_def)
  have t: "truthy (requestId_of (approve_msg ''req1''))"
    by (simp add: i)
  have n: "pending_get seated_room (requestId_of (approve_msg ''req1'')) = None"
    by (simp add: i pending_get_def seated_room_def)
  show ?thesis
    using approve_missing_request [OF seated_roomCode(1) seated_rooms h seated_open t n]
      seated_roomCode(1) seated_rooms h seated_open t n
    by (simp add: i)
qed

lemma pending_update_same_conn:
  "map_of ps rid = Some rq \<Longrightarrow>
   map (\<lambda>(i, q). req_ws q) (AList.update rid (rq\<lparr>req_name := n\<rparr>) ps) =
     map (\<lambda>(i, q). req_ws q) ps"
  by (induction ps) (auto split: if_splits)

lemma join_without_live_host:
  assumes "rooms w (sanitizeRoomCode (msg_roomCode m)) = Some r" and "\<not> host_open w r"
  shows "handleJoinContestant ws m g w =
           send ws (JoinDenied ''Room not found. Ask the host for a new code.'') w"
  using assms by (simp add: handleJoinContestant_def Let_def getRoom_def)

text \<open>
  C7, as amended. Let a connection send \<open>join-contestant\<close> for a room that exists and
  whose host is bound on an open connection, while the connection's \<open>pendingRequestId\<close>
  is a non-empty key of \<open>pendingJoins\<close> in that room. Then no request id is minted: the
  keys of \<open>pendingJoins\<close> and the connections its entries refer to are as before, the
  connection keeps its request id, nothing is sent, and the entry gets the sanitized
  name, or keeps its name when the sanitized name is empty. Without a host on an open
  connection the handler stops before it looks the request up: it answers
  \<open>join-denied\<close> and updates nothing (\<open>join_without_live_host\<close>).
\<close>

theorem rejoin_updates_in_place:
  assumes "sanitizeRoomCode (msg_roomCode m) = k" and "rooms w k = Some r"
    and "host_open w r"
    and "ws_pendingRequestId (conns w ws) = Some rid" and "rid \<noteq> []"
    and "map_of (pendingJoins r) rid = Some rq"
    and "sanitizeName (case msg_payload m of None \<Rightarrow> JUndefined | Some p \<Rightarrow> p_name p) = name"
  shows "rooms (handleJoinContestant ws m g w) k =
           Some (r\<lparr>pendingJoins := AList.update rid (rq\<lparr>req_name := str_or name (req_name rq)\<rparr>)
                                     (pendingJoins r)\<rparr>) \<and>
         map fst (AList.update rid (rq\<lparr>req_name := str_or name (req_name rq)\<rparr>)
                    (pendingJoins r)) = map fst (pendingJoins r) \<and>
         pending_conns (handleJoinContestant ws m g w) k = pending_conns w k \<and>
         ws_pendingRequestId (conns (handleJoinContestant ws m g w) ws) = Some rid \<and>
         sent (handleJoinContestant ws m g w) = sent w"
proof -
  have key: "rid \<in> set (map fst (pendingJoins r))"
    using assms(6) by (metis map_of_eq_None_iff option.distinct(1) set_map)
  have ex: "existingRequest ((conns w ws)\<lparr>ws_roomCode := Some (code r)\<rparr>) r = Some (rid, rq)"
    using assms(4-6) by (simp add: existingRequest_def)
  have eq: "handleJoinContestant ws m g w =
      upd_room k (\<lambda>r. r\<lparr>pendingJoins := AList.update rid
                         (rq\<lparr>req_name := str_or name (req_name rq)\<rparr>) (pendingJoins r)\<rparr>)
        (upd_conn ws (\<lambda>c. c\<lparr>ws_roomCode := Some (code r)\<rparr>) w)"
    using assms(1-3,7) ex by (simp add: handleJoinContestant_def Let_def getRoom_def)
  show ?thesis
    using assms(2,4,6) key
    by (simp add: eq rooms_upd_room pending_conns_def update_keys pending_update_same_conn)
qed

theorem rejoin_updates_in_place_witness:
  "sanitizeRoomCode (msg_roomCode (join_msg ''1234'' ''Alexa'')) = ''1234'' \<and>
   rooms waiting ''1234'' = Some waiting_room \<and> host_open waiting waiting_room \<and>
   ws_pendingRequestId (conns waiting 1) = Some ''req1'' \<and> ''req1'' \<noteq> [] \<and>
   map_of (pendingJoins waiting_room) ''req1'' = Some \<lparr>req_ws = 1, req_name = ''Alex''\<rparr> \<and>
   rooms (handleJoinContestant 1 (join_msg ''1234'' ''Alexa'') (draws ''req9'') waiting) ''1234'' =
     Some (waiting_room\<lparr>pendingJoins := [(''req1'', \<lparr>req_ws = 1, req_name = ''Alexa''\<rparr>)]\<rparr>) \<and>
   sent (handleJoinContestant 1 (join_msg ''1234'' ''Alexa'') (draws ''req9'') waiting) =
     sent waiting"
proof -
  have c: "sanitizeRoomCode (msg_roomCode (join_msg ''1234'' ''Alexa'')) = ''1234''"
    by (simp add: join_msg_def msg_of_def sanitizeRoomCode_def is_digit_def ROOM_CODE_LENGTH_def)
  have i: "''req1'' \<noteq> []"
    by simp
  have q: "map_of (pendingJoins waiting_room) ''req1'' = Some \<lparr>req_ws = 1, req_name = ''Alex''\<rparr>"
    by (simp add: waiting_room_def)
  have n: "sanitizeName (case msg_payload (join_msg ''1234'' ''Alexa'') of
             None \<Rightarrow> JUndefined | Some p \<Rightarrow> p_name p) = ''Alexa''"
    by (simp add: join_msg_def msg_of_def no_payload_def sanitizeName_def trim_def is_crlf_def
        is_space_def)
  show ?thesis
    using rejoin_updates_in_place [OF c waiting_rooms waiting_conn(2) waiting_conn(1) i q n,
        of "draws ''req9''"]
      c waiting_rooms waiting_conn q
    by (simp add: str_or_def waiting_room_def)
qed

text \<open>
  Across rooms the property fails. The lookup of the outstanding request is made in the
  room that is being joined, and nothing removes a request from the room the connection
  asked before: after asking to join two rooms, the connection has a pending entry in
  each of them.
\<close>

theorem one_pending_request_counterexample:
  "pending_conns (run two_rooms) ''1111'' = [2] \<and> pending_conns (run two_rooms) ''2222'' = [2]"
  unfolding two_rooms_def by code_simp

end
